theory Spec2Isabelle
  imports Complex_Main "HOL-Library.Sublist" "HOL-Library.AList"
begin

section \<open>Python values and the runtime the pipeline relies on\<close>

text \<open>
  The subject is \<^verbatim>\<open>src/llm_utils.py\<close>: \<^verbatim>\<open>analyze_question\<close> (the Evaluator) and
  \<^verbatim>\<open>generate_questions\<close> (the Generator), together with the two regular expressions of
  \<^verbatim>\<open>src/pages/question_generator.py\<close> that read the Evaluator's report back.

  Text is a \<open>char list\<close>; one \<open>char\<close> stands for one code point below 256, so the model
  speaks about responses made of such code points.

  A Python float is one of the three special values or a finite value, which is identified
  with the real number it holds (rounding of conversions is not modelled).
\<close>

datatype pyfloat = Fin real | PInf | NInf | NaN

text \<open>What \<^verbatim>\<open>json.loads\<close> can return.  A dict keeps its keys in insertion order.\<close>

datatype json =
    JNull
  | JBool bool
  | JInt int
  | JFloat pyfloat
  | JStr string
  | JList "json list"
  | JDict "(string \<times> json) list"

text \<open>
  An exception that is not a \<^verbatim>\<open>json.JSONDecodeError\<close>: its class, the operation that raised
  it and the operand.
\<close>

datatype pyexn =
    AttributeError json string
  | TypeError string json
  | ValueError string json
  | OverflowError string json
  | KeyError string
  | RecursionError string json

text \<open>
  What a call of \<^verbatim>\<open>json.loads\<close> does: it returns a value, raises \<^verbatim>\<open>JSONDecodeError\<close>, or
  raises another exception (\<^verbatim>\<open>RecursionError\<close> on deep nesting, the \<^verbatim>\<open>ValueError\<close> of the
  limit on the digits of an int).
\<close>

datatype loads_result = Parsed json | DecodeError | Raised pyexn

text \<open>
  The parts of the Python runtime that the source calls and that are not code of this
  repository are parameters of the model:
  \<^item> \<open>json_loads\<close>: \<^verbatim>\<open>json.loads\<close> on text;
  \<^item> \<open>float_of_str\<close>, \<open>int_of_str\<close>: \<^verbatim>\<open>float(s)\<close> and \<^verbatim>\<open>int(s)\<close> on text, \<open>None\<close> when they
    raise \<^verbatim>\<open>ValueError\<close>;
  \<^item> \<open>str_of_float\<close>: \<^verbatim>\<open>str(x)\<close> of a float, as an f-string prints it;
  \<^item> \<open>str_of_container\<close>: \<^verbatim>\<open>str(v)\<close> of a list or a dict;
  \<^item> \<open>str_of_exn\<close>: \<^verbatim>\<open>str(e)\<close> of an exception.
\<close>

record pylib =
  json_loads :: "string \<Rightarrow> loads_result"
  float_of_str :: "string \<Rightarrow> pyfloat option"
  int_of_str :: "string \<Rightarrow> int option"
  str_of_float :: "pyfloat \<Rightarrow> string"
  str_of_container :: "json \<Rightarrow> string"
  str_of_exn :: "pyexn \<Rightarrow> string"

text \<open>
  What the call to the model endpoint gave: no client (no credential), an exception raised
  by the call (with its \<^verbatim>\<open>str(e)\<close>), or the content of the first choice.
\<close>

datatype gateway = NoClient | CallFailed string | Response string

subsection \<open>Floats: comparison, \<^verbatim>\<open>min\<close> and \<^verbatim>\<open>max\<close>\<close>

text \<open>\<^verbatim>\<open>a < b\<close> on floats; every comparison with NaN is false.\<close>

fun flt :: "pyfloat \<Rightarrow> pyfloat \<Rightarrow> bool" where
  "flt NaN _ = False"
| "flt _ NaN = False"
| "flt (Fin a) (Fin b) = (a < b)"
| "flt (Fin a) PInf = True"
| "flt (Fin a) NInf = False"
| "flt PInf _ = False"
| "flt NInf (Fin b) = True"
| "flt NInf PInf = True"
| "flt NInf NInf = False"

text \<open>
  \<^verbatim>\<open>min(a, b)\<close> keeps \<open>a\<close> unless \<open>b < a\<close>; \<^verbatim>\<open>max(a, b)\<close> keeps \<open>a\<close> unless \<open>b > a\<close>.
\<close>

definition py_min :: "pyfloat \<Rightarrow> pyfloat \<Rightarrow> pyfloat" where
  "py_min a b = (if flt b a then b else a)"

definition py_max :: "pyfloat \<Rightarrow> pyfloat \<Rightarrow> pyfloat" where
  "py_max a b = (if flt a b then b else a)"

text \<open>\<^verbatim>\<open>max(1.0, min(5.0, x))\<close>, lines 171 and 370.\<close>

definition clamp_difficulty :: "pyfloat \<Rightarrow> pyfloat" where
  "clamp_difficulty x = py_max (Fin 1) (py_min (Fin 5) x)"

text \<open>\<^verbatim>\<open>max(1, min(60, t))\<close>, line 180.\<close>

definition clamp_time :: "int \<Rightarrow> int" where
  "clamp_time t = max 1 (min 60 t)"

subsection \<open>Coercions\<close>

text \<open>
  \<^verbatim>\<open>float(v)\<close>.  An int too large for a double raises \<^verbatim>\<open>OverflowError\<close>; \<^verbatim>\<open>None\<close>, lists and
  dicts raise \<^verbatim>\<open>TypeError\<close>; text goes through the runtime's parser.
\<close>

fun py_float :: "pylib \<Rightarrow> json \<Rightarrow> pyexn + pyfloat" where
  "py_float lib (JInt n) =
     (if \<bar>n\<bar> \<ge> 2 ^ 1024 - 2 ^ 970 then Inl (OverflowError ''float'' (JInt n))
      else Inr (Fin (of_int n)))"
| "py_float lib (JFloat x) = Inr x"
| "py_float lib (JBool b) = Inr (Fin (if b then 1 else 0))"
| "py_float lib (JStr s) =
     (case float_of_str lib s of
        None \<Rightarrow> Inl (ValueError ''float'' (JStr s))
      | Some x \<Rightarrow> Inr x)"
| "py_float lib v = Inl (TypeError ''float'' v)"

text \<open>
  \<^verbatim>\<open>int(v)\<close>.  A finite float is truncated towards zero; an infinity raises
  \<^verbatim>\<open>OverflowError\<close> and NaN raises \<^verbatim>\<open>ValueError\<close>.
\<close>

fun py_int :: "pylib \<Rightarrow> json \<Rightarrow> pyexn + int" where
  "py_int lib (JInt n) = Inr n"
| "py_int lib (JBool b) = Inr (if b then 1 else 0)"
| "py_int lib (JFloat (Fin r)) = Inr (if 0 \<le> r then \<lfloor>r\<rfloor> else \<lceil>r\<rceil>)"
| "py_int lib (JFloat NaN) = Inl (ValueError ''int'' (JFloat NaN))"
| "py_int lib (JFloat x) = Inl (OverflowError ''int'' (JFloat x))"
| "py_int lib (JStr s) =
     (case int_of_str lib s of
        None \<Rightarrow> Inl (ValueError ''int'' (JStr s))
      | Some n \<Rightarrow> Inr n)"
| "py_int lib v = Inl (TypeError ''int'' v)"

subsection \<open>Printing\<close>

definition digit_char :: "nat \<Rightarrow> char" where
  "digit_char d = ''0123456789'' ! d"

fun digits_of :: "nat \<Rightarrow> string" where
  "digits_of n = (if n < 10 then [digit_char n] else digits_of (n div 10) @ [digit_char (n mod 10)])"

declare digits_of.simps [simp del]

text \<open>\<^verbatim>\<open>str(i)\<close> of an int.\<close>

definition str_int :: "int \<Rightarrow> string" where
  "str_int i = (if i < 0 then CHR ''-'' # digits_of (nat (- i)) else digits_of (nat i))"

text \<open>\<^verbatim>\<open>str(v)\<close>, which is what an f-string field \<^verbatim>\<open>{v}\<close> prints.\<close>

fun py_str :: "pylib \<Rightarrow> json \<Rightarrow> string" where
  "py_str lib JNull = ''None''"
| "py_str lib (JBool b) = (if b then ''True'' else ''False'')"
| "py_str lib (JInt n) = str_int n"
| "py_str lib (JFloat x) = str_of_float lib x"
| "py_str lib (JStr s) = s"
| "py_str lib v = str_of_container lib v"

text \<open>Truth value of a JSON value, as \<^verbatim>\<open>not v\<close> tests it.\<close>

fun py_truthy :: "json \<Rightarrow> bool" where
  "py_truthy JNull = False"
| "py_truthy (JBool b) = b"
| "py_truthy (JInt n) = (n \<noteq> 0)"
| "py_truthy (JFloat x) = (x \<noteq> Fin 0)"
| "py_truthy (JStr s) = (s \<noteq> [])"
| "py_truthy (JList xs) = (xs \<noteq> [])"
| "py_truthy (JDict d) = (d \<noteq> [])"

subsection \<open>Text\<close>

text \<open>White space as \<^verbatim>\<open>str.strip\<close> and the pattern \<^verbatim>\<open>\s\<close> see it (code points below 256).\<close>

definition is_space :: "char \<Rightarrow> bool" where
  "is_space c \<longleftrightarrow> c \<in> set [CHR 0x09, CHR 0x0A, CHR 0x0B, CHR 0x0C, CHR 0x0D,
     CHR 0x1C, CHR 0x1D, CHR 0x1E, CHR 0x1F, CHR 0x20, CHR 0x85, CHR 0xA0]"

text \<open>The pattern \<^verbatim>\<open>\d\<close>.\<close>

definition is_digit :: "char \<Rightarrow> bool" where
  "is_digit c \<longleftrightarrow> c \<in> set ''0123456789''"

text \<open>The pattern \<^verbatim>\<open>\w\<close>: letters, digits, numeric characters and the underscore.\<close>

definition is_word :: "char \<Rightarrow> bool" where
  "is_word c \<longleftrightarrow> (let n = (of_char c :: nat) in
     (48 \<le> n \<and> n \<le> 57) \<or> (65 \<le> n \<and> n \<le> 90) \<or> n = 95 \<or> (97 \<le> n \<and> n \<le> 122) \<or>
     n \<in> set [0xAA, 0xB2, 0xB3, 0xB5, 0xB9, 0xBA, 0xBC, 0xBD, 0xBE] \<or>
     (0xC0 \<le> n \<and> n \<le> 0xFF \<and> n \<noteq> 0xD7 \<and> n \<noteq> 0xF7))"

text \<open>\<^verbatim>\<open>s.strip()\<close>.\<close>

definition py_strip :: "string \<Rightarrow> string" where
  "py_strip s = rev (dropWhile is_space (rev (dropWhile is_space s)))"

text \<open>\<^verbatim>\<open>s.lower()\<close>, character by character.\<close>

definition lower_char :: "char \<Rightarrow> char" where
  "lower_char c = (let n = (of_char c :: nat) in
     if (65 \<le> n \<and> n \<le> 90) \<or> (0xC0 \<le> n \<and> n \<le> 0xDE \<and> n \<noteq> 0xD7)
     then char_of (n + 32) else c)"

definition py_lower :: "string \<Rightarrow> string" where
  "py_lower s = map lower_char s"

text \<open>\<^verbatim>\<open>sub in s\<close> on text.\<close>

fun contains :: "string \<Rightarrow> string \<Rightarrow> bool" where
  "contains sub [] = (sub = [])"
| "contains sub (c # cs) = (prefix sub (c # cs) \<or> contains sub cs)"

text \<open>
  \<^verbatim>\<open>re.sub(r'```json\s*|\s*```', '', s)\<close>, line 156: scanning from the left, an opening
  fence with the white space after it, or a fence with the white space before it, is
  removed.
\<close>

function strip_fences :: "string \<Rightarrow> string" where
  "strip_fences [] = []"
| "strip_fences (c # cs) =
     (if prefix ''```json'' (c # cs) then strip_fences (dropWhile is_space (drop 7 (c # cs)))
      else if prefix ''```'' (dropWhile is_space (c # cs))
      then strip_fences (drop 3 (dropWhile is_space (c # cs)))
      else c # strip_fences cs)"
  by pat_completeness auto
termination
proof (relation "measure length")
  show "wf (measure length)" by simp
next
  fix c cs
  have "length (dropWhile is_space (drop 7 (c # cs))) \<le> length (drop 7 (c # cs))"
    by (rule length_dropWhile_le)
  then show "(dropWhile is_space (drop 7 (c # cs)), c # cs) \<in> measure length"
    by simp
next
  fix c cs
  assume "prefix ''```'' (dropWhile is_space (c # cs))"
  have "length (dropWhile is_space (c # cs)) \<le> length (c # cs)"
    by (rule length_dropWhile_le)
  then show "(drop 3 (dropWhile is_space (c # cs)), c # cs) \<in> measure length"
    by simp
next
  fix c :: char and cs :: string
  show "(cs, c # cs) \<in> measure length" by simp
qed

text \<open>Lines 156 and 158: the text the Evaluator parses and, on failure, reports.\<close>

definition clean_response :: "string \<Rightarrow> string" where
  "clean_response s = py_strip (strip_fences s)"

text \<open>
  \<^verbatim>\<open>re.search(r'\{[^{}]*\}', s)\<close>, line 221: the leftmost opening brace that is followed by
  characters other than braces and then a closing brace; the match runs to that brace.
\<close>

definition not_brace :: "char \<Rightarrow> bool" where
  "not_brace c \<longleftrightarrow> c \<noteq> CHR ''{'' \<and> c \<noteq> CHR ''}''"

fun find_object :: "string \<Rightarrow> string option" where
  "find_object [] = None"
| "find_object (c # cs) =
     (if c = CHR ''{'' \<and> prefix ''}'' (dropWhile not_brace cs)
      then Some (c # takeWhile not_brace cs @ ''}'')
      else find_object cs)"

text \<open>
  \<^verbatim>\<open>re.search(r'\[.*\]', s, re.DOTALL)\<close>, line 357: from the first opening bracket to the
  last closing bracket after it.
\<close>

definition upto_last_bracket :: "string \<Rightarrow> string" where
  "upto_last_bracket s = rev (dropWhile (\<lambda>c. c \<noteq> CHR '']'') (rev s))"

definition find_array :: "string \<Rightarrow> string option" where
  "find_array s =
     (let t = dropWhile (\<lambda>c. c \<noteq> CHR ''['') s
      in if CHR '']'' \<in> set t then Some (upto_last_bracket t) else None)"

section \<open>The Evaluator: \<^verbatim>\<open>analyze_question\<close>\<close>

text \<open>Sequencing of steps that may raise.\<close>

definition ebind :: "pyexn + 'a \<Rightarrow> ('a \<Rightarrow> pyexn + 'b) \<Rightarrow> pyexn + 'b" where
  "ebind m f = (case m of Inl e \<Rightarrow> Inl e | Inr x \<Rightarrow> f x)"

text \<open>
  \<^verbatim>\<open>v.get(k, dflt)\<close>; \<^verbatim>\<open>v.get(k)\<close> is the case \<open>dflt = JNull\<close>.  Only a dict has the method.
\<close>

fun py_get :: "json \<Rightarrow> string \<Rightarrow> json \<Rightarrow> pyexn + json" where
  "py_get (JDict d) k dflt = Inr (case map_of d k of None \<Rightarrow> dflt | Some v \<Rightarrow> v)"
| "py_get v k dflt = Inl (AttributeError v ''get'')"

text \<open>The four values the report is made of.\<close>

record fields =
  difficulty :: pyfloat
  estimated_time :: int
  student_level :: string
  suggestions :: string

definition placeholder :: string where
  "placeholder = ''No specific improvement suggestions provided.''"

text \<open>Lines 201 to 211 (and 230 to 240): the report.\<close>

definition format_report :: "pylib \<Rightarrow> fields \<Rightarrow> string" where
  "format_report lib f =
     ''## Question Analysis\<newline>\<newline>**Difficulty Rating:** '' @ str_of_float lib (difficulty f) @
     ''/5.0\<newline>\<newline>**Estimated Time:** '' @ str_int (estimated_time f) @
     '' minutes\<newline>\<newline>**Appropriate Student Level:** '' @ student_level f @
     ''\<newline>\<newline>### Improvement Suggestions:\<newline>'' @ suggestions f @ ''\<newline>''"

text \<open>Lines 177 to 182.\<close>

definition normalize_time :: "pylib \<Rightarrow> json \<Rightarrow> pyexn + int" where
  "normalize_time lib v =
     (if v \<noteq> JNull then ebind (py_int lib v) (\<lambda>t. Inr (clamp_time t)) else Inr 5)"

text \<open>Lines 185 to 195.  \<^verbatim>\<open>lower\<close> is a method of text only.\<close>

fun normalize_level :: "json \<Rightarrow> pyexn + string" where
  "normalize_level JNull = Inr ''Intermediate''"
| "normalize_level (JStr s) =
     Inr (if contains ''beginner'' (py_lower s) then ''Beginner''
          else if contains ''advanced'' (py_lower s) then ''Advanced''
          else ''Intermediate'')"
| "normalize_level v = Inl (AttributeError v ''lower'')"

text \<open>Lines 197 and 198.\<close>

definition normalize_suggestions :: "pylib \<Rightarrow> json \<Rightarrow> string" where
  "normalize_suggestions lib v = (if \<not> py_truthy v then placeholder else py_str lib v)"

text \<open>
  Lines 163 to 198, on the value the direct parse gave.  \<open>Inr None\<close> is the early return of
  line 174 (no difficulty rating).
\<close>

definition direct_fields :: "pylib \<Rightarrow> json \<Rightarrow> pyexn + fields option" where
  "direct_fields lib result =
     ebind (py_get result ''difficulty_rating'' JNull) (\<lambda>dr.
     ebind (py_get result ''estimated_time'' JNull) (\<lambda>et.
     ebind (py_get result ''student_level'' JNull) (\<lambda>sl.
     ebind (py_get result ''improvement_suggestions'' JNull) (\<lambda>sg.
       if dr \<noteq> JNull then
         ebind (py_float lib dr) (\<lambda>x.
         ebind (normalize_time lib et) (\<lambda>t.
         ebind (normalize_level sl) (\<lambda>l.
           Inr (Some \<lparr>difficulty = clamp_difficulty x, estimated_time = t,
                      student_level = l, suggestions = normalize_suggestions lib sg\<rparr>))))
       else Inr None))))"

text \<open>
  Lines 223 to 227, on the value parsed from the brace span: defaults for absent keys, no
  further normalisation; level and suggestions are printed as they are.
\<close>

definition fallback_fields :: "pylib \<Rightarrow> json \<Rightarrow> pyexn + fields" where
  "fallback_fields lib result =
     ebind (py_get result ''difficulty_rating'' (JFloat (Fin 3))) (\<lambda>dr.
     ebind (py_float lib dr) (\<lambda>x.
     ebind (py_get result ''estimated_time'' (JInt 5)) (\<lambda>et.
     ebind (py_int lib et) (\<lambda>t.
     ebind (py_get result ''student_level'' (JStr ''Intermediate'')) (\<lambda>sl.
     ebind (py_get result ''improvement_suggestions'' (JStr placeholder)) (\<lambda>sg.
       Inr \<lparr>difficulty = x, estimated_time = t,
            student_level = py_str lib sl, suggestions = py_str lib sg\<rparr>))))))"

text \<open>
  Lines 220 to 244: the second tier.  \<open>None\<close> when there is no brace span or anything in
  the tier raises (every exception, of the parse too, is caught and logged).
\<close>

definition parse_fallback :: "pylib \<Rightarrow> string \<Rightarrow> fields option" where
  "parse_fallback lib text =
     (case find_object text of
        None \<Rightarrow> None
      | Some m \<Rightarrow>
          (case json_loads lib m of
             Parsed result \<Rightarrow>
               (case fallback_fields lib result of Inl e \<Rightarrow> None | Inr f \<Rightarrow> Some f)
           | DecodeError \<Rightarrow> None
           | Raised e \<Rightarrow> None))"

text \<open>
  \<^verbatim>\<open>analyze_question\<close>.  The question and its context only enter the prompt; what the
  function returns is determined by what the gateway gave.  The handler of line 215 takes
  \<^verbatim>\<open>JSONDecodeError\<close> only; any other exception of the direct parse or of lines 163 to 198
  reaches the handler of line 249.
\<close>

definition analyze_question :: "pylib \<Rightarrow> gateway \<Rightarrow> pyfloat option \<times> string" where
  "analyze_question lib gw =
     (case gw of
        NoClient \<Rightarrow>
          (None, ''Error: Groq client not initialized. Please check your API key configuration.'')
      | CallFailed msg \<Rightarrow> (None, ''Error calling Groq API: '' @ msg)
      | Response content \<Rightarrow>
          (let response_text = clean_response (py_strip content)
           in case json_loads lib response_text of
                Parsed result \<Rightarrow>
                  (case direct_fields lib result of
                     Inl e \<Rightarrow> (None, ''Error calling Groq API: '' @ str_of_exn lib e)
                   | Inr None \<Rightarrow> (None, ''Error: No difficulty rating provided in analysis'')
                   | Inr (Some f) \<Rightarrow> (Some (difficulty f), format_report lib f))
              | DecodeError \<Rightarrow>
                  (case parse_fallback lib response_text of
                     Some f \<Rightarrow> (Some (difficulty f), format_report lib f)
                   | None \<Rightarrow> (Some (Fin 3), ''Analysis (raw): '' @ response_text))
              | Raised e \<Rightarrow> (None, ''Error calling Groq API: '' @ str_of_exn lib e)))"

section \<open>Reading the report back: \<^verbatim>\<open>question_generator_page\<close>\<close>

text \<open>
  \<^verbatim>\<open>re.search(r'\*\*Estimated Time:\*\* (\d+) minutes', s)\<close>, line 151: group 1 of the leftmost
  match.
\<close>

definition match_time :: "string \<Rightarrow> string option" where
  "match_time s =
     (if prefix ''**Estimated Time:** '' s then
        (let r = drop 20 s in
         if takeWhile is_digit r \<noteq> [] \<and> prefix '' minutes'' (dropWhile is_digit r)
         then Some (takeWhile is_digit r) else None)
      else None)"

fun search_time :: "string \<Rightarrow> string option" where
  "search_time [] = None"
| "search_time (c # cs) =
     (case match_time (c # cs) of Some g \<Rightarrow> Some g | None \<Rightarrow> search_time cs)"

text \<open>\<^verbatim>\<open>re.search(r'\*\*Appropriate Student Level:\*\* (\w+)', s)\<close>, line 155.\<close>

definition match_level :: "string \<Rightarrow> string option" where
  "match_level s =
     (if prefix ''**Appropriate Student Level:** '' s then
        (let r = drop 31 s in
         if takeWhile is_word r \<noteq> [] then Some (takeWhile is_word r) else None)
      else None)"

fun search_level :: "string \<Rightarrow> string option" where
  "search_level [] = None"
| "search_level (c # cs) =
     (case match_level (c # cs) of Some g \<Rightarrow> Some g | None \<Rightarrow> search_level cs)"

text \<open>
  \<^verbatim>\<open>int(g)\<close> on a run of decimal digits (the limit that recent Python versions put on the
  length of such a run is not modelled).
\<close>

definition digit_val :: "char \<Rightarrow> nat" where
  "digit_val c = of_char c - 48"

definition int_of_digits :: "string \<Rightarrow> int" where
  "int_of_digits ds = int (foldl (\<lambda>acc c. 10 * acc + digit_val c) 0 ds)"

text \<open>Lines 151 to 156.\<close>

definition extract_time :: "string \<Rightarrow> int" where
  "extract_time analysis_text =
     (case search_time analysis_text of Some g \<Rightarrow> int_of_digits g | None \<Rightarrow> 5)"

definition extract_level :: "string \<Rightarrow> string" where
  "extract_level analysis_text =
     (case search_level analysis_text of Some g \<Rightarrow> g | None \<Rightarrow> ''Intermediate'')"

section \<open>The Generator: \<^verbatim>\<open>generate_questions\<close>\<close>

text \<open>
  \<^verbatim>\<open>k in q\<close>: a key of a dict, an element of a list, a piece of a text; any other value is
  not iterable.
\<close>

fun py_contains :: "json \<Rightarrow> string \<Rightarrow> pyexn + bool" where
  "py_contains (JDict d) k = Inr (k \<in> fst ` set d)"
| "py_contains (JList xs) k = Inr (JStr k \<in> set xs)"
| "py_contains (JStr s) k = Inr (contains k s)"
| "py_contains v k = Inl (TypeError ''in'' v)"

text \<open>\<^verbatim>\<open>q[k]\<close> with a text key \<open>k\<close>.\<close>

fun py_getitem :: "json \<Rightarrow> string \<Rightarrow> pyexn + json" where
  "py_getitem (JDict d) k = (case map_of d k of None \<Rightarrow> Inl (KeyError k) | Some v \<Rightarrow> Inr v)"
| "py_getitem v k = Inl (TypeError ''getitem'' v)"

text \<open>
  \<^verbatim>\<open>q[k] = v\<close> with a text key: the value of an existing key is replaced where it stands, a
  new key goes to the end.
\<close>

fun py_setitem :: "json \<Rightarrow> string \<Rightarrow> json \<Rightarrow> pyexn + json" where
  "py_setitem (JDict d) k v = Inr (JDict (AList.update k v d))"
| "py_setitem q k v = Inl (TypeError ''setitem'' q)"

text \<open>\<^verbatim>\<open>for q in questions\<close>: the elements of a list, the keys of a dict, the characters of a text.\<close>

fun py_iter :: "json \<Rightarrow> pyexn + json list" where
  "py_iter (JList xs) = Inr xs"
| "py_iter (JDict d) = Inr (map (\<lambda>p. JStr (fst p)) d)"
| "py_iter (JStr s) = Inr (map (\<lambda>c. JStr [c]) s)"
| "py_iter v = Inl (TypeError ''iter'' v)"

definition required_fields :: "string list" where
  "required_fields = [''question_content'', ''question_type'', ''difficulty'', ''correct_answer'']"

text \<open>\<^verbatim>\<open>all(k in q for k in ks)\<close>, line 366: stops at the first key that is missing.\<close>

fun has_all :: "json \<Rightarrow> string list \<Rightarrow> pyexn + bool" where
  "has_all q [] = Inr True"
| "has_all q (k # ks) = ebind (py_contains q k) (\<lambda>b. if b then has_all q ks else Inr False)"

text \<open>
  Lines 366 to 382, the body of the loop for one element: \<open>Inr None\<close> is \<^verbatim>\<open>continue\<close>,
  \<open>Inr (Some q')\<close> is the element as it is appended.
\<close>

definition validate_question :: "pylib \<Rightarrow> json \<Rightarrow> pyexn + json option" where
  "validate_question lib q =
     ebind (has_all q required_fields) (\<lambda>ok.
       if \<not> ok then Inr None
       else
         ebind (py_getitem q ''difficulty'') (\<lambda>dv.
         ebind (py_float lib dv) (\<lambda>x.
         ebind (py_setitem q ''difficulty'' (JFloat (clamp_difficulty x))) (\<lambda>q1.
         ebind (py_contains q1 ''estimated_time'') (\<lambda>has_time.
         ebind (if has_time
                then ebind (py_getitem q1 ''estimated_time'') (\<lambda>tv.
                     ebind (py_int lib tv) (\<lambda>t.
                       py_setitem q1 ''estimated_time'' (JInt t)))
                else py_setitem q1 ''estimated_time'' (JInt 5)) (\<lambda>q2.
         ebind (py_contains q2 ''student_level'') (\<lambda>has_level.
         ebind (if \<not> has_level
                then py_setitem q2 ''student_level'' (JStr ''Intermediate'')
                else Inr q2) (\<lambda>q3.
           Inr (Some q3)))))))))"

text \<open>Lines 363 to 384: the loop, with the list built so far.\<close>

fun validate_loop :: "pylib \<Rightarrow> json list \<Rightarrow> json list \<Rightarrow> pyexn + json list" where
  "validate_loop lib [] validated_questions = Inr validated_questions"
| "validate_loop lib (q # qs) validated_questions =
     ebind (validate_question lib q) (\<lambda>r.
       case r of
         None \<Rightarrow> validate_loop lib qs validated_questions
       | Some q' \<Rightarrow> validate_loop lib qs (validated_questions @ [q']))"

text \<open>
  \<^verbatim>\<open>generate_questions\<close>.  The arguments only enter the prompt.  \<^verbatim>\<open>JSONDecodeError\<close> goes
  to the handler of line 388; every other exception, of the parse or raised while the
  parsed value is walked, reaches the handler of line 392.  Both return the empty list.
\<close>

definition generate_questions :: "pylib \<Rightarrow> gateway \<Rightarrow> json list" where
  "generate_questions lib gw =
     (case gw of
        NoClient \<Rightarrow> []
      | CallFailed msg \<Rightarrow> []
      | Response response_text \<Rightarrow>
          (case find_array response_text of
             None \<Rightarrow> []
           | Some json_str \<Rightarrow>
               (case json_loads lib json_str of
                  Parsed questions \<Rightarrow>
                    (case ebind (py_iter questions) (\<lambda>qs. validate_loop lib qs []) of
                       Inl e \<Rightarrow> []
                     | Inr validated_questions \<Rightarrow> validated_questions)
                | DecodeError \<Rightarrow> []
                | Raised e \<Rightarrow> [])))"

section \<open>A runtime given by tables\<close>

text \<open>
  For running the model on a concrete response: \<^verbatim>\<open>json.loads\<close>, \<^verbatim>\<open>float\<close> and \<^verbatim>\<open>int\<close> on
  text succeed exactly on the entries of their tables (off its table \<^verbatim>\<open>json.loads\<close> raises
  \<^verbatim>\<open>JSONDecodeError\<close>, and \<^verbatim>\<open>float\<close> and \<^verbatim>\<open>int\<close> raise \<^verbatim>\<open>ValueError\<close>), and floats print as the
  last table says.  Each example below lists in its tables what Python returns for the
  calls the run makes.
\<close>

definition table_lib ::
  "(string \<times> json) list \<Rightarrow> (string \<times> pyfloat) list \<Rightarrow> (string \<times> int) list \<Rightarrow>
   (pyfloat \<times> string) list \<Rightarrow> pylib" where
  "table_lib loads_tab float_tab int_tab str_tab =
     \<lparr>json_loads = (\<lambda>s. case map_of loads_tab s of None \<Rightarrow> DecodeError | Some v \<Rightarrow> Parsed v),
      float_of_str = map_of float_tab,
      int_of_str = map_of int_tab,
      str_of_float = (\<lambda>x. case map_of str_tab x of None \<Rightarrow> [] | Some s \<Rightarrow> s),
      str_of_container = (\<lambda>v. []),
      str_of_exn = (\<lambda>e. [])\<rparr>"

section \<open>Notions used to state the properties\<close>

text \<open>\<^verbatim>\<open>d.get(k)\<close> on a dict: the value of the key, \<^verbatim>\<open>None\<close> when the key is absent.\<close>

definition dict_field :: "(string \<times> json) list \<Rightarrow> string \<Rightarrow> json" where
  "dict_field d k = (case map_of d k of None \<Rightarrow> JNull | Some v \<Rightarrow> v)"

text \<open>An element of the batch that is a dict with the four required keys.\<close>

definition has_required :: "json \<Rightarrow> bool" where
  "has_required q = (case q of JDict d \<Rightarrow> set required_fields \<subseteq> fst ` set d | _ \<Rightarrow> False)"

text \<open>
  The difficulty of a dict, and its estimated time when it has one, go through \<^verbatim>\<open>float\<close>
  and \<^verbatim>\<open>int\<close> without an exception.
\<close>

definition coercible :: "pylib \<Rightarrow> json \<Rightarrow> bool" where
  "coercible lib q =
     (case q of
        JDict d \<Rightarrow>
          (case map_of d ''difficulty'' of None \<Rightarrow> True | Some v \<Rightarrow> \<not> isl (py_float lib v)) \<and>
          (case map_of d ''estimated_time'' of None \<Rightarrow> True | Some v \<Rightarrow> \<not> isl (py_int lib v))
      | _ \<Rightarrow> True)"

text \<open>
  What lines 370 to 380 make of a dict \<open>d\<close> whose difficulty coerces to \<open>x\<close> and whose
  estimated time is \<open>t\<close>.
\<close>

definition default_level :: "(string \<times> json) list \<Rightarrow> (string \<times> json) list" where
  "default_level d =
     (if ''student_level'' \<in> fst ` set d then d
      else AList.update ''student_level'' (JStr ''Intermediate'') d)"

definition cleaned :: "(string \<times> json) list \<Rightarrow> pyfloat \<Rightarrow> int \<Rightarrow> json" where
  "cleaned d x t =
     JDict (default_level (AList.update ''estimated_time'' (JInt t)
             (AList.update ''difficulty'' (JFloat (clamp_difficulty x)) d)))"

text \<open>The element the loop appends for \<open>q\<close>, if it appends one.\<close>

definition survivor :: "pylib \<Rightarrow> json \<Rightarrow> json option" where
  "survivor lib q = (case validate_question lib q of Inr (Some q') \<Rightarrow> Some q' | _ \<Rightarrow> None)"

text \<open>The JSON object of the specification's fenced example.\<close>

definition example_object :: string where
  "example_object = ''{\"difficulty_rating\": 7, \"estimated_time\": 999, \"student_level\": \"novice\", \"improvement_suggestions\": \"\"}''"

text \<open>
  A reply holding a batch of three questions, the second without a difficulty, and what
  \<^verbatim>\<open>json.loads\<close> makes of its bracketed span.
\<close>

definition example_batch_span :: string where
  "example_batch_span = ''[{\"question_content\": \"Q1\", \"question_type\": \"Essay\", \"difficulty\": 2, \"correct_answer\": \"A1\"}, {\"question_content\": \"Q2\", \"question_type\": \"Essay\", \"correct_answer\": \"A2\"}, {\"question_content\": \"Q3\", \"question_type\": \"Essay\", \"difficulty\": 9, \"correct_answer\": \"A3\", \"estimated_time\": 90}]''"

definition example_batch :: "json list" where
  "example_batch =
     [JDict [(''question_content'', JStr ''Q1''), (''question_type'', JStr ''Essay''),
             (''difficulty'', JInt 2), (''correct_answer'', JStr ''A1'')],
      JDict [(''question_content'', JStr ''Q2''), (''question_type'', JStr ''Essay''),
             (''correct_answer'', JStr ''A2'')],
      JDict [(''question_content'', JStr ''Q3''), (''question_type'', JStr ''Essay''),
             (''difficulty'', JInt 9), (''correct_answer'', JStr ''A3''),
             (''estimated_time'', JInt 90)]]"

definition example_batch_lib :: pylib where
  "example_batch_lib = table_lib [(example_batch_span, JList example_batch)] [] [] []"

section \<open>Lemmas about the model\<close>

subsection \<open>Sequencing and clamping\<close>

lemma ebind_simps [simp]:
  "ebind (Inl e) f = Inl e"
  "ebind (Inr x) f = f x"
  by (simp_all add: ebind_def)

lemma ebind_eq_Inr:
  "ebind m f = Inr y \<longleftrightarrow> (\<exists>x. m = Inr x \<and> f x = Inr y)"
  by (cases m) simp_all

lemma not_isl_iff: "\<not> isl m \<longleftrightarrow> (\<exists>x. m = Inr x)"
  by (cases m) simp_all

lemma clamp_difficulty_range:
  "\<exists>r. clamp_difficulty x = Fin r \<and> 1 \<le> r \<and> r \<le> 5"
  by (cases x) (auto simp: clamp_difficulty_def py_max_def py_min_def)

lemma clamp_time_range: "1 \<le> clamp_time t \<and> clamp_time t \<le> 60"
  by (simp add: clamp_time_def)

subsection \<open>The loop body of the Generator on a dict\<close>

lemma has_all_dict: "has_all (JDict d) ks = Inr (set ks \<subseteq> fst ` set d)"
  by (induction ks) auto

lemma validate_question_dict:
  "validate_question lib (JDict d) =
     (if \<not> set required_fields \<subseteq> fst ` set d then Inr None
      else ebind (py_float lib (the (map_of d ''difficulty''))) (\<lambda>x.
           ebind (case map_of d ''estimated_time'' of None \<Rightarrow> Inr 5 | Some tv \<Rightarrow> py_int lib tv) (\<lambda>t.
             Inr (Some (cleaned d x t)))))"
proof (cases "set required_fields \<subseteq> fst ` set d")
  case False
  then show ?thesis by (simp add: validate_question_def has_all_dict)
next
  case True
  then have "''difficulty'' \<in> fst ` set d" by (simp add: required_fields_def)
  then obtain dv where dv: "map_of d ''difficulty'' = Some dv"
    by (metis domD dom_map_of_conv_image_fst)
  show ?thesis
  proof (cases "py_float lib dv")
    case (Inl e)
    with True dv show ?thesis by (simp add: validate_question_def has_all_dict)
  next
    case (Inr x)
    show ?thesis
    proof (cases "map_of d ''estimated_time''")
      case None
      then have nk: "''estimated_time'' \<notin> fst ` set d"
        by (simp add: map_of_eq_None_iff)
      with True dv Inr None show ?thesis
        by (simp add: validate_question_def has_all_dict dom_update cleaned_def default_level_def)
    next
      case (Some tv)
      then have k: "''estimated_time'' \<in> fst ` set d"
        by (metis domI dom_map_of_conv_image_fst)
      with True dv Inr Some show ?thesis
        by (cases "py_int lib tv")
           (simp_all add: validate_question_def has_all_dict dom_update update_conv' cleaned_def default_level_def)
    qed
  qed
qed

lemma validate_question_Some_dict:
  assumes "validate_question lib q = Inr (Some q')"
  shows "\<exists>d. q = JDict d"
proof (cases q)
  case (JStr s)
  with assms show ?thesis
    by (auto simp: validate_question_def ebind_eq_Inr split: if_splits)
next
  case (JList xs)
  with assms show ?thesis
    by (auto simp: validate_question_def ebind_eq_Inr split: if_splits)
qed (use assms in \<open>auto simp: validate_question_def required_fields_def\<close>)

lemma validate_question_cleaned:
  assumes "validate_question lib (JDict d) = Inr (Some q')"
  shows "\<exists>x t. q' = cleaned d x t"
  using assms
  by (auto simp: validate_question_dict ebind_eq_Inr split: if_splits)

lemma required_difficulty:
  assumes "set required_fields \<subseteq> fst ` set d"
  shows "\<exists>dv. map_of d ''difficulty'' = Some dv"
proof -
  from assms have "''difficulty'' \<in> fst ` set d" by (simp add: required_fields_def)
  then show ?thesis by (metis domD dom_map_of_conv_image_fst)
qed

lemma validate_question_coercible:
  assumes "has_required (JDict d)" and "coercible lib (JDict d)"
  shows "\<exists>q'. validate_question lib (JDict d) = Inr (Some q')"
proof -
  from assms(1) have req: "set required_fields \<subseteq> fst ` set d" by (simp add: has_required_def)
  then obtain dv where dv: "map_of d ''difficulty'' = Some dv" using required_difficulty by blast
  with assms(2) obtain x where x: "py_float lib dv = Inr x"
    by (auto simp: coercible_def not_isl_iff)
  from assms(2) have "\<exists>t. (case map_of d ''estimated_time'' of None \<Rightarrow> Inr 5 | Some tv \<Rightarrow> py_int lib tv) = Inr t"
    by (auto simp: coercible_def not_isl_iff split: option.splits)
  then obtain t where "(case map_of d ''estimated_time'' of None \<Rightarrow> Inr 5 | Some tv \<Rightarrow> py_int lib tv) = Inr t" ..
  with req dv x show ?thesis by (simp add: validate_question_dict)
qed

lemma validate_question_not_coercible:
  assumes "has_required (JDict d)" and "\<not> coercible lib (JDict d)"
  shows "\<exists>e. validate_question lib (JDict d) = Inl e"
proof -
  from assms(1) have req: "set required_fields \<subseteq> fst ` set d" by (simp add: has_required_def)
  then obtain dv where dv: "map_of d ''difficulty'' = Some dv" using required_difficulty by blast
  show ?thesis
  proof (cases "py_float lib dv")
    case (Inl e)
    with req dv show ?thesis by (simp add: validate_question_dict)
  next
    case (Inr x)
    with assms(2) dv obtain tv e where "map_of d ''estimated_time'' = Some tv" "py_int lib tv = Inl e"
      by (auto simp: coercible_def split: option.splits sum.splits) (metis isl_def)
    with req dv Inr show ?thesis by (simp add: validate_question_dict)
  qed
qed

lemma map_of_default_level:
  "map_of (default_level d) ''student_level'' =
     Some (case map_of d ''student_level'' of None \<Rightarrow> JStr ''Intermediate'' | Some v \<Rightarrow> v)"
proof (cases "map_of d ''student_level''")
  case None
  then have "''student_level'' \<notin> fst ` set d" by (simp add: map_of_eq_None_iff)
  with None show ?thesis by (simp add: default_level_def update_conv')
next
  case (Some v)
  then have "''student_level'' \<in> fst ` set d" by (metis domI dom_map_of_conv_image_fst)
  with Some show ?thesis by (simp add: default_level_def)
qed

lemma cleaned_student_level:
  "cleaned d x t = JDict d' \<Longrightarrow>
     map_of d' ''student_level'' =
       Some (case map_of d ''student_level'' of None \<Rightarrow> JStr ''Intermediate'' | Some v \<Rightarrow> v)"
  by (auto simp: cleaned_def map_of_default_level update_conv')

lemma validate_question_cleanedD:
  assumes "validate_question lib (JDict d) = Inr (Some q')"
  shows "\<exists>dv x t. map_of d ''difficulty'' = Some dv \<and> py_float lib dv = Inr x \<and>
           (case map_of d ''estimated_time'' of None \<Rightarrow> t = 5 | Some tv \<Rightarrow> py_int lib tv = Inr t) \<and>
           q' = cleaned d x t"
proof -
  from assms have req: "set required_fields \<subseteq> fst ` set d"
    by (auto simp: validate_question_dict split: if_splits)
  then obtain dv where dv: "map_of d ''difficulty'' = Some dv" using required_difficulty by blast
  from assms req dv obtain x t where x: "py_float lib dv = Inr x"
    and t: "(case map_of d ''estimated_time'' of None \<Rightarrow> Inr 5 | Some tv \<Rightarrow> py_int lib tv) = Inr t"
    and q': "q' = cleaned d x t"
    by (auto simp: validate_question_dict ebind_eq_Inr)
  from t have "case map_of d ''estimated_time'' of None \<Rightarrow> t = 5 | Some tv \<Rightarrow> py_int lib tv = Inr t"
    by (auto split: option.splits)
  with dv x q' show ?thesis by blast
qed

lemma cleaned_estimated_time:
  "cleaned d x t = JDict d' \<Longrightarrow> map_of d' ''estimated_time'' = Some (JInt t)"
  by (auto simp: cleaned_def default_level_def update_conv')

subsection \<open>The loop of the Generator\<close>

lemma validate_loop_raises:
  "q \<in> set qs \<Longrightarrow> validate_question lib q = Inl e \<Longrightarrow> \<exists>e'. validate_loop lib qs acc = Inl e'"
proof (induction qs arbitrary: acc)
  case Nil
  then show ?case by simp
next
  case (Cons a qs)
  show ?case
  proof (cases "validate_question lib a")
    case (Inl e0)
    then show ?thesis by simp
  next
    case (Inr r)
    with Cons.prems have "q \<in> set qs" by auto
    with Cons.IH Cons.prems(2) Inr show ?thesis by (cases r) simp_all
  qed
qed

lemma validate_loop_no_exception:
  "\<forall>q\<in>set qs. \<exists>r. validate_question lib q = Inr r \<Longrightarrow>
     validate_loop lib qs acc = Inr (acc @ List.map_filter (survivor lib) qs)"
proof (induction qs arbitrary: acc)
  case Nil
  then show ?case by simp
next
  case (Cons a qs)
  then obtain r where r: "validate_question lib a = Inr r" by auto
  from Cons.prems have rest: "\<forall>q\<in>set qs. \<exists>r. validate_question lib q = Inr r" by simp
  show ?case
    using r Cons.IH [OF rest]
    by (cases r) (simp_all add: survivor_def)
qed

lemma validate_loop_no_survivor:
  "\<forall>q\<in>set qs. \<forall>q'. validate_question lib q \<noteq> Inr (Some q') \<Longrightarrow>
     validate_loop lib qs acc = Inr acc \<or> (\<exists>e. validate_loop lib qs acc = Inl e)"
proof (induction qs arbitrary: acc)
  case Nil
  then show ?case by simp
next
  case (Cons a qs)
  show ?case
  proof (cases "validate_question lib a")
    case (Inl e)
    then show ?thesis by simp
  next
    case (Inr r)
    with Cons.prems have "r = None" by (cases r) auto
    with Inr Cons.IH Cons.prems show ?thesis by simp
  qed
qed

lemma validate_loop_elements:
  "validate_loop lib qs acc = Inr out \<Longrightarrow> q' \<in> set out \<Longrightarrow>
     q' \<in> set acc \<or> (\<exists>q\<in>set qs. validate_question lib q = Inr (Some q'))"
proof (induction qs arbitrary: acc)
  case Nil
  then show ?case by simp
next
  case (Cons a qs)
  from Cons.prems(1) obtain r where r: "validate_question lib a = Inr r"
    by (cases "validate_question lib a") simp_all
  show ?case
  proof (cases r)
    case None
    with r Cons.prems have "validate_loop lib qs acc = Inr out" by simp
    from Cons.IH [OF this Cons.prems(2)] show ?thesis by auto
  next
    case (Some a')
    with r Cons.prems have "validate_loop lib qs (acc @ [a']) = Inr out" by simp
    from Cons.IH [OF this Cons.prems(2)] r Some show ?thesis by auto
  qed
qed

lemma filter_map_filter_all2:
  assumes "\<forall>q\<in>set qs. (P q \<longrightarrow> (\<exists>q'. g q = Some q' \<and> R q q')) \<and> (\<not> P q \<longrightarrow> g q = None)"
  shows "list_all2 R (filter P qs) (List.map_filter g qs)"
  using assms
proof (induction qs)
  case Nil
  then show ?case by simp
next
  case (Cons a qs)
  then have IH: "list_all2 R (filter P qs) (List.map_filter g qs)" by simp
  show ?case
  proof (cases "P a")
    case True
    with Cons.prems obtain a' where "g a = Some a'" "R a a'" by auto
    with True IH show ?thesis by simp
  next
    case False
    with Cons.prems have "g a = None" by simp
    with False IH show ?thesis by simp
  qed
qed

lemma validate_loop_strings:
  assumes "\<forall>q\<in>set qs. \<exists>t. q = JStr t"
  shows "(case validate_loop lib qs [] of Inl e \<Rightarrow> [] | Inr out \<Rightarrow> out) = []"
proof -
  have "\<forall>q\<in>set qs. \<forall>q'. validate_question lib q \<noteq> Inr (Some q')"
    using assms validate_question_Some_dict by fastforce
  then have "validate_loop lib qs [] = Inr [] \<or> (\<exists>e. validate_loop lib qs [] = Inl e)"
    by (rule validate_loop_no_survivor)
  then show ?thesis by auto
qed

lemma generate_questions_list:
  assumes "find_array content = Some s" and "json_loads lib s = Parsed (JList qs)"
  shows "generate_questions lib (Response content) =
           (case validate_loop lib qs [] of Inl e \<Rightarrow> [] | Inr out \<Rightarrow> out)"
  using assms by (simp add: generate_questions_def)

lemma generate_questions_not_list:
  assumes "find_array content = Some s" and "json_loads lib s = Parsed v" and "\<forall>qs. v \<noteq> JList qs"
  shows "generate_questions lib (Response content) = []"
proof (cases v)
  case (JStr t)
  have "(case validate_loop lib (map (\<lambda>c. JStr [c]) t) [] of Inl e \<Rightarrow> [] | Inr out \<Rightarrow> out) = []"
    by (rule validate_loop_strings) auto
  with assms JStr show ?thesis by (simp add: generate_questions_def)
next
  case (JDict d)
  have "(case validate_loop lib (map (\<lambda>p. JStr (fst p)) d) [] of Inl e \<Rightarrow> [] | Inr out \<Rightarrow> out) = []"
    by (rule validate_loop_strings) auto
  with assms JDict show ?thesis by (simp add: generate_questions_def)
qed (use assms in \<open>simp_all add: generate_questions_def\<close>)

lemma generate_questions_elements:
  assumes "q' \<in> set (generate_questions lib (Response content))"
  shows "\<exists>s qs d. find_array content = Some s \<and> json_loads lib s = Parsed (JList qs) \<and>
           JDict d \<in> set qs \<and> validate_question lib (JDict d) = Inr (Some q')"
proof -
  from assms obtain s where s: "find_array content = Some s"
    by (cases "find_array content") (simp_all add: generate_questions_def)
  have "\<exists>qs. json_loads lib s = Parsed (JList qs)"
  proof (rule ccontr)
    assume no: "\<not> (\<exists>qs. json_loads lib s = Parsed (JList qs))"
    have "generate_questions lib (Response content) = []"
    proof (cases "json_loads lib s")
      case (Parsed v)
      with no have "\<forall>qs. v \<noteq> JList qs" by simp
      with s Parsed show ?thesis by (rule generate_questions_not_list)
    next
      case DecodeError
      with s show ?thesis by (simp add: generate_questions_def)
    next
      case (Raised e)
      with s show ?thesis by (simp add: generate_questions_def)
    qed
    with assms show False by simp
  qed
  then obtain qs where qs: "json_loads lib s = Parsed (JList qs)" ..
  from assms s qs obtain out where out: "validate_loop lib qs [] = Inr out" and mem: "q' \<in> set out"
    by (cases "validate_loop lib qs []") (simp_all add: generate_questions_list)
  from validate_loop_elements [OF out mem] obtain q where
    q: "q \<in> set qs" "validate_question lib q = Inr (Some q')" by auto
  then obtain d where "q = JDict d" using validate_question_Some_dict by blast
  with s qs q show ?thesis by blast
qed

lemma generate_questions_difficulty_range:
  assumes "q' \<in> set (generate_questions lib (Response content))"
  shows "\<exists>d' r. q' = JDict d' \<and> map_of d' ''difficulty'' = Some (JFloat (Fin r)) \<and> 1 \<le> r \<and> r \<le> 5"
proof -
  from assms obtain e where "validate_question lib (JDict e) = Inr (Some q')"
    using generate_questions_elements by blast
  then obtain x t where q': "q' = cleaned e x t" using validate_question_cleaned by blast
  obtain r where r: "clamp_difficulty x = Fin r" "1 \<le> r" "r \<le> 5"
    using clamp_difficulty_range by blast
  have "map_of (default_level (AList.update ''estimated_time'' (JInt t)
             (AList.update ''difficulty'' (JFloat (clamp_difficulty x)) e))) ''difficulty''
        = Some (JFloat (clamp_difficulty x))"
    by (simp add: default_level_def update_conv')
  with q' r show ?thesis by (auto simp: cleaned_def)
qed

lemma generate_questions_estimated_time:
  assumes "q' \<in> set (generate_questions lib (Response content))"
  shows "\<exists>e e' t. validate_question lib (JDict e) = Inr (Some q') \<and> q' = JDict e' \<and>
           map_of e' ''estimated_time'' = Some (JInt t) \<and>
           (case map_of e ''estimated_time'' of None \<Rightarrow> t = 5 | Some tv \<Rightarrow> py_int lib tv = Inr t)"
proof -
  from assms obtain e where e: "validate_question lib (JDict e) = Inr (Some q')"
    using generate_questions_elements by blast
  from validate_question_cleanedD [OF e] obtain x t where
    t: "case map_of e ''estimated_time'' of None \<Rightarrow> t = 5 | Some tv \<Rightarrow> py_int lib tv = Inr t"
    and q': "q' = cleaned e x t" by blast
  from q' obtain e' where e': "q' = JDict e'" by (simp add: cleaned_def)
  with q' have "map_of e' ''estimated_time'' = Some (JInt t)"
    using cleaned_estimated_time by metis
  with e e' t show ?thesis by blast
qed

subsection \<open>The tiers of the Evaluator\<close>

lemma analyze_question_direct:
  assumes "json_loads lib (clean_response (py_strip content)) = Parsed v"
  shows "analyze_question lib (Response content) =
           (case direct_fields lib v of
              Inl e \<Rightarrow> (None, ''Error calling Groq API: '' @ str_of_exn lib e)
            | Inr None \<Rightarrow> (None, ''Error: No difficulty rating provided in analysis'')
            | Inr (Some f) \<Rightarrow> (Some (difficulty f), format_report lib f))"
  using assms by (simp add: analyze_question_def Let_def)

lemma analyze_question_fallback:
  assumes "json_loads lib (clean_response (py_strip content)) = DecodeError"
  shows "analyze_question lib (Response content) =
           (case parse_fallback lib (clean_response (py_strip content)) of
              Some f \<Rightarrow> (Some (difficulty f), format_report lib f)
            | None \<Rightarrow> (Some (Fin 3), ''Analysis (raw): '' @ clean_response (py_strip content)))"
  using assms by (simp add: analyze_question_def Let_def)

lemma analyze_question_raised:
  assumes "json_loads lib (clean_response (py_strip content)) = Raised e"
  shows "analyze_question lib (Response content) =
           (None, ''Error calling Groq API: '' @ str_of_exn lib e)"
  using assms by (simp add: analyze_question_def Let_def)

lemma direct_fields_dict:
  "direct_fields lib (JDict d) =
     (case map_of d ''difficulty_rating'' of
        None \<Rightarrow> Inr None
      | Some dr \<Rightarrow>
          if dr = JNull then Inr None
          else ebind (py_float lib dr) (\<lambda>x.
               ebind (normalize_time lib (case map_of d ''estimated_time'' of None \<Rightarrow> JNull | Some v \<Rightarrow> v)) (\<lambda>t.
               ebind (normalize_level (case map_of d ''student_level'' of None \<Rightarrow> JNull | Some v \<Rightarrow> v)) (\<lambda>l.
                 Inr (Some \<lparr>difficulty = clamp_difficulty x, estimated_time = t, student_level = l,
                        suggestions = normalize_suggestions lib
                          (case map_of d ''improvement_suggestions'' of None \<Rightarrow> JNull | Some v \<Rightarrow> v)\<rparr>)))))"
  by (simp add: direct_fields_def split: option.splits)

lemma direct_fields_Some_dict:
  assumes "direct_fields lib v = Inr r"
  shows "\<exists>d. v = JDict d"
  using assms by (cases v) (simp_all add: direct_fields_def)

lemma direct_fields_SomeD:
  assumes "direct_fields lib (JDict d) = Inr (Some f)"
  shows "\<exists>dr x t l. map_of d ''difficulty_rating'' = Some dr \<and> dr \<noteq> JNull \<and>
           py_float lib dr = Inr x \<and>
           normalize_time lib (case map_of d ''estimated_time'' of None \<Rightarrow> JNull | Some v \<Rightarrow> v) = Inr t \<and>
           normalize_level (case map_of d ''student_level'' of None \<Rightarrow> JNull | Some v \<Rightarrow> v) = Inr l \<and>
           f = \<lparr>difficulty = clamp_difficulty x, estimated_time = t, student_level = l,
                 suggestions = normalize_suggestions lib
                   (case map_of d ''improvement_suggestions'' of None \<Rightarrow> JNull | Some v \<Rightarrow> v)\<rparr>"
proof (cases "map_of d ''difficulty_rating''")
  case None
  with assms show ?thesis by (simp add: direct_fields_dict)
next
  case (Some dr)
  with assms show ?thesis
    by (auto simp: direct_fields_dict ebind_eq_Inr split: if_splits)
qed

lemma normalize_level_labels:
  assumes "normalize_level v = Inr l"
  shows "l \<in> {''Beginner'', ''Intermediate'', ''Advanced''}"
  using assms by (cases v) (auto split: if_splits)

lemma direct_fields_ranges:
  assumes "direct_fields lib v = Inr (Some f)"
  shows "(\<exists>r. difficulty f = Fin r \<and> 1 \<le> r \<and> r \<le> 5) \<and>
         1 \<le> estimated_time f \<and> estimated_time f \<le> 60 \<and>
         student_level f \<in> {''Beginner'', ''Intermediate'', ''Advanced''}"
proof -
  from assms obtain d where d: "v = JDict d" using direct_fields_Some_dict by blast
  from direct_fields_SomeD [OF assms [unfolded d]] obtain x t l tv lv where
    f: "difficulty f = clamp_difficulty x" "estimated_time f = t" "student_level f = l"
    and t: "normalize_time lib tv = Inr t" and l: "normalize_level lv = Inr l"
    by auto
  from t have "1 \<le> t \<and> t \<le> 60"
    using clamp_time_range by (auto simp: normalize_time_def ebind_eq_Inr split: if_splits)
  with f l show ?thesis
    using clamp_difficulty_range normalize_level_labels by auto
qed

subsection \<open>Stripping fences and white space\<close>

lemma py_strip_pad:
  assumes "\<forall>c\<in>set w1. is_space c" and "\<forall>c\<in>set w2. is_space c"
    and "x \<noteq> []" and "\<not> is_space (hd x)" and "\<not> is_space (last x)"
  shows "py_strip (w1 @ x @ w2) = x"
proof -
  from assms(3,4) have "dropWhile is_space (x @ w2) = x @ w2" by (cases x) simp_all
  with assms(1) have 1: "dropWhile is_space (w1 @ x @ w2) = x @ w2"
    by simp
  from assms(3,5) have "dropWhile is_space (rev x) = rev x"
    by (cases "rev x") (simp_all add: last_rev [symmetric] hd_rev)
  moreover have "dropWhile is_space (rev w2 @ rev x) = dropWhile is_space (rev x)"
    using assms(2) by (intro dropWhile_append2) simp
  ultimately have "dropWhile is_space (rev w2 @ rev x) = rev x"
    by (simp only:)
  with 1 show ?thesis by (simp add: py_strip_def)
qed

lemma strip_fences_plain:
  assumes "CHR ''`'' \<notin> set xs" and "xs \<noteq> [] \<longrightarrow> \<not> is_space (last xs)"
  shows "strip_fences (xs @ rest) = xs @ strip_fences rest"
  using assms
proof (induction xs)
  case Nil
  then show ?case by simp
next
  case (Cons c cs)
  from Cons.prems have c: "c \<noteq> CHR ''`''" by auto
  from Cons.prems(2) have "\<exists>x\<in>set (c # cs). \<not> is_space x"
    by (metis last_in_set list.distinct(1))
  then obtain y where "y \<in> set (c # cs)" "\<not> is_space y" by blast
  then have dw: "dropWhile is_space ((c # cs) @ rest) = dropWhile is_space (c # cs) @ rest"
    by (rule dropWhile_append1)
  from \<open>\<exists>x\<in>set (c # cs). \<not> is_space x\<close> have ne: "dropWhile is_space (c # cs) \<noteq> []"
    by (simp only: dropWhile_eq_Nil_conv) blast
  then have "hd (dropWhile is_space (c # cs)) \<in> set (c # cs)"
    by (metis hd_in_set set_dropWhileD)
  with Cons.prems(1) have "hd (dropWhile is_space (c # cs)) \<noteq> CHR ''`''" by metis
  with ne have np: "\<not> prefix ''```'' (dropWhile is_space (c # cs) @ rest)"
    by (cases "dropWhile is_space (c # cs)") auto
  from Cons.prems have IHp: "CHR ''`'' \<notin> set cs" "cs \<noteq> [] \<longrightarrow> \<not> is_space (last cs)" by auto
  have "strip_fences ((c # cs) @ rest) = c # strip_fences (cs @ rest)"
    using c np dw by simp
  with Cons.IH [OF IHp] show ?case by simp
qed

lemma strip_fences_closing:
  assumes "\<forall>c\<in>set w. is_space c"
  shows "strip_fences (w @ ''```'') = []"
proof (cases w)
  case Nil
  then show ?thesis by (simp add: is_space_def)
next
  case (Cons c cs)
  with assms have "is_space c" by simp
  then have c: "c \<noteq> CHR ''`''" by (auto simp: is_space_def)
  from assms have "dropWhile is_space (w @ ''```'') = ''```''"
    by (simp add: is_space_def)
  with Cons c show ?thesis by simp
qed

lemma strip_fences_opening:
  assumes "\<forall>c\<in>set w. is_space c" and "x \<noteq> []" and "\<not> is_space (hd x)"
  shows "strip_fences (''```json'' @ w @ x @ rest) = strip_fences (x @ rest)"
proof -
  from assms(2,3) have "dropWhile is_space (x @ rest) = x @ rest" by (cases x) simp_all
  with assms(1) have "dropWhile is_space (w @ x @ rest) = x @ rest"
    by simp
  then show ?thesis by simp
qed

lemma clean_fenced:
  assumes w: "\<forall>c\<in>set w1. is_space c" "\<forall>c\<in>set w2. is_space c"
             "\<forall>c\<in>set w3. is_space c" "\<forall>c\<in>set w4. is_space c"
    and x: "x \<noteq> []" "\<not> is_space (hd x)" "\<not> is_space (last x)" "CHR ''`'' \<notin> set x"
  shows "clean_response (py_strip (w1 @ ''```json'' @ w2 @ x @ w3 @ ''```'' @ w4)) = x"
proof -
  have "py_strip (w1 @ (''```json'' @ w2 @ x @ w3 @ ''```'') @ w4) = ''```json'' @ w2 @ x @ w3 @ ''```''"
    using w(1,4) by (rule py_strip_pad) (simp_all add: is_space_def)
  then have 1: "py_strip (w1 @ ''```json'' @ w2 @ x @ w3 @ ''```'' @ w4) = ''```json'' @ w2 @ x @ w3 @ ''```''"
    by simp
  have "strip_fences (''```json'' @ w2 @ x @ (w3 @ ''```'')) = strip_fences (x @ (w3 @ ''```''))"
    using w(2) x(1,2) by (rule strip_fences_opening)
  also have "\<dots> = x @ strip_fences (w3 @ ''```'')"
    using x by (intro strip_fences_plain) simp_all
  also have "\<dots> = x" using w(3) by (simp add: strip_fences_closing)
  finally have 2: "strip_fences (''```json'' @ w2 @ x @ w3 @ ''```'') = x" by simp
  have "py_strip ([] @ x @ []) = x" using x(1,2,3) by (intro py_strip_pad) simp_all
  with 1 2 show ?thesis by (simp add: clean_response_def)
qed

lemma example_object_shape:
  "example_object \<noteq> []" "\<not> is_space (hd example_object)" "\<not> is_space (last example_object)"
  "CHR ''`'' \<notin> set example_object"
  by (simp_all add: example_object_def is_space_def)

subsection \<open>Digits and the two searches\<close>

lemma digit_char_props:
  assumes "d < 10"
  shows "is_digit (digit_char d)" and "digit_val (digit_char d) = d"
proof -
  from assms have "d \<in> {0, 1, 2, 3, 4, 5, 6, 7, 8, 9}" by auto
  then show "is_digit (digit_char d)" and "digit_val (digit_char d) = d"
    by (auto simp: digit_char_def is_digit_def digit_val_def)
qed

lemma digits_of_digits: "\<forall>c\<in>set (digits_of n). is_digit c"
proof (induction n rule: digits_of.induct)
  case (1 n)
  show ?case
  proof (cases "n < 10")
    case True
    then show ?thesis by (subst digits_of.simps) (simp add: digit_char_props)
  next
    case False
    with 1 show ?thesis by (subst digits_of.simps) (simp add: digit_char_props)
  qed
qed

lemma digits_of_nonempty: "digits_of n \<noteq> []"
  by (subst digits_of.simps) simp

lemma foldl_digits_of:
  "foldl (\<lambda>acc c. 10 * acc + digit_val c) 0 (digits_of n) = n"
proof (induction n rule: digits_of.induct)
  case (1 n)
  show ?case
  proof (cases "n < 10")
    case True
    then show ?thesis by (subst digits_of.simps) (simp add: digit_char_props)
  next
    case False
    with 1 show ?thesis by (subst digits_of.simps) (simp add: digit_char_props)
  qed
qed

lemma int_of_digits_str_int: "0 \<le> t \<Longrightarrow> int_of_digits (str_int t) = t"
  by (simp add: int_of_digits_def str_int_def foldl_digits_of)

lemma str_int_digits: "0 \<le> t \<Longrightarrow> (\<forall>c\<in>set (str_int t). is_digit c) \<and> str_int t \<noteq> []"
  by (simp add: str_int_def digits_of_digits digits_of_nonempty)

lemma is_digit_not_star: "is_digit c \<Longrightarrow> c \<noteq> CHR ''*''"
  by (auto simp: is_digit_def)

lemma search_time_skip: "CHR ''*'' \<notin> set xs \<Longrightarrow> search_time (xs @ ys) = search_time ys"
  by (induction xs) (auto simp: match_time_def)

lemma search_level_skip: "CHR ''*'' \<notin> set xs \<Longrightarrow> search_level (xs @ ys) = search_level ys"
  by (induction xs) (auto simp: match_level_def)

lemma match_time_marker:
  assumes "\<forall>c\<in>set ds. is_digit c" and "ds \<noteq> []"
  shows "match_time (''**Estimated Time:** '' @ ds @ '' minutes'' @ rest) = Some ds"
proof -
  have "takeWhile is_digit (ds @ '' minutes'' @ rest) = ds"
    using assms(1) by (simp add: is_digit_def)
  moreover have "dropWhile is_digit (ds @ '' minutes'' @ rest) = '' minutes'' @ rest"
    using assms(1) by (simp add: is_digit_def)
  ultimately show ?thesis using assms(2) by (simp add: match_time_def)
qed

lemma match_level_marker:
  assumes "\<forall>c\<in>set l. is_word c" and "l \<noteq> []"
  shows "match_level (''**Appropriate Student Level:** '' @ l @ CHR 0x0A # rest) = Some l"
proof -
  have "takeWhile is_word (l @ CHR 0x0A # rest) = l"
    using assms(1) by (simp add: is_word_def)
  then show ?thesis using assms(2) by (simp add: match_level_def)
qed

lemma search_time_report:
  assumes "CHR ''*'' \<notin> set fs" and "\<forall>c\<in>set ds. is_digit c" and "ds \<noteq> []"
  shows "search_time (''## Question Analysis\<newline>\<newline>**Difficulty Rating:** '' @ fs @
           ''/5.0\<newline>\<newline>**Estimated Time:** '' @ ds @ '' minutes'' @ rest) = Some ds"
proof -
  have 1: "search_time (fs @ ''/5.0\<newline>\<newline>'' @ ''**Estimated Time:** '' @ ds @ '' minutes'' @ rest)
         = search_time (''**Estimated Time:** '' @ ds @ '' minutes'' @ rest)"
    using assms(1) by (simp add: search_time_skip [of "fs @ ''/5.0\<newline>\<newline>''", simplified])
  have 2: "search_time (''**Estimated Time:** '' @ ds @ '' minutes'' @ rest) = Some ds"
    using match_time_marker [OF assms(2,3), of rest] by simp
  have "search_time (''## Question Analysis\<newline>\<newline>**Difficulty Rating:** '' @ fs @
           ''/5.0\<newline>\<newline>**Estimated Time:** '' @ ds @ '' minutes'' @ rest)
        = search_time (fs @ ''/5.0\<newline>\<newline>'' @ ''**Estimated Time:** '' @ ds @ '' minutes'' @ rest)"
    by (simp add: match_time_def)
  with 1 2 show ?thesis by simp
qed

lemma search_level_report:
  assumes "CHR ''*'' \<notin> set fs" and "\<forall>c\<in>set ds. is_digit c"
    and "\<forall>c\<in>set l. is_word c" and "l \<noteq> []"
  shows "search_level (''## Question Analysis\<newline>\<newline>**Difficulty Rating:** '' @ fs @
           ''/5.0\<newline>\<newline>**Estimated Time:** '' @ ds @
           '' minutes\<newline>\<newline>**Appropriate Student Level:** '' @ l @ CHR 0x0A # rest) = Some l"
proof -
  let ?tail = "''**Appropriate Student Level:** '' @ l @ CHR 0x0A # rest"
  from assms(2) have ds: "CHR ''*'' \<notin> set ds" using is_digit_not_star by blast
  have 1: "search_level (''## Question Analysis\<newline>\<newline>**Difficulty Rating:** '' @ fs @
           ''/5.0\<newline>\<newline>**Estimated Time:** '' @ ds @ '' minutes\<newline>\<newline>'' @ ?tail)
        = search_level (fs @ ''/5.0\<newline>\<newline>**Estimated Time:** '' @ ds @ '' minutes\<newline>\<newline>'' @ ?tail)"
    by (simp add: match_level_def)
  have 2: "search_level (fs @ ''/5.0\<newline>\<newline>**Estimated Time:** '' @ ds @ '' minutes\<newline>\<newline>'' @ ?tail)
        = search_level (''/5.0\<newline>\<newline>**Estimated Time:** '' @ ds @ '' minutes\<newline>\<newline>'' @ ?tail)"
    using assms(1) by (rule search_level_skip)
  have 3: "search_level (''/5.0\<newline>\<newline>**Estimated Time:** '' @ ds @ '' minutes\<newline>\<newline>'' @ ?tail)
        = search_level (ds @ '' minutes\<newline>\<newline>'' @ ?tail)"
    by (simp add: match_level_def)
  have 4: "search_level (ds @ '' minutes\<newline>\<newline>'' @ ?tail) = search_level ('' minutes\<newline>\<newline>'' @ ?tail)"
    using ds by (rule search_level_skip)
  have 5: "search_level ('' minutes\<newline>\<newline>'' @ ?tail) = search_level ?tail"
    by (rule search_level_skip) simp
  have 6: "search_level ?tail = Some l"
    using match_level_marker [OF assms(3,4), of rest] by simp
  from 1 2 3 4 5 6 show ?thesis by simp
qed

lemma labels_are_words:
  assumes "l \<in> {''Beginner'', ''Intermediate'', ''Advanced''}"
  shows "(\<forall>c\<in>set l. is_word c) \<and> l \<noteq> []"
  using assms by (auto simp: is_word_def)

section \<open>The claims\<close>

subsection \<open>C1\<close>

text \<open>
  C1.  Stated property: every difficulty the Evaluator returns, and every difficulty in the
  Generator's list, lies between 1.0 and 5.0, on every parse path, the brace-span fallback
  included.  The direct path and the Generator clamp (\<open>direct_fields_ranges\<close>,
  \<open>generate_questions_difficulty_range\<close>); the fallback of lines 221 to 242 does not.  On the
  response below the direct parse fails, the brace span parses to an object with rating 7,
  and the Evaluator returns 7.0.
\<close>

theorem C1_fallback_returns_unclamped_difficulty:
  "analyze_question
     (table_lib
        [(''{\"difficulty_rating\": 7}'', JDict [(''difficulty_rating'', JInt 7)])]
        [] [] [(Fin 7, ''7.0'')])
     (Response ''The rating is {\"difficulty_rating\": 7}'')
   = (Some (Fin 7),
      ''## Question Analysis\<newline>\<newline>**Difficulty Rating:** 7.0/5.0\<newline>\<newline>**Estimated Time:** 5 minutes\<newline>\<newline>**Appropriate Student Level:** Intermediate\<newline>\<newline>### Improvement Suggestions:\<newline>No specific improvement suggestions provided.\<newline>'')"
  by code_simp

subsection \<open>C2\<close>

text \<open>
  C2.  Stated property: once the gateway has given a response, the Evaluator returns a
  difficulty that is not null; a null difficulty only comes with a failed gateway.  The
  code also returns null, on purpose, when the directly parsed object has no difficulty
  rating (line 174).  What holds: without a client, or when the call raises, the result is
  null with an explanatory text; when the direct parse of the cleaned response raises
  \<^verbatim>\<open>JSONDecodeError\<close>, the difficulty is not null; when the direct parse gives an object
  with a rating that is not null and goes through \<^verbatim>\<open>float\<close>, and lines 177 to 195 normalise
  its estimated time and student level without an exception, the difficulty is the
  clamped rating, not null, and the text is the report of the normalised fields; when the
  direct parse gives an object whose \<^verbatim>\<open>difficulty_rating\<close> is absent or null, the result is
  null with the text of line 174.
\<close>

theorem C2_null_difficulty_cases:
  "analyze_question lib NoClient =
     (None, ''Error: Groq client not initialized. Please check your API key configuration.'') \<and>
   analyze_question lib (CallFailed msg) = (None, ''Error calling Groq API: '' @ msg) \<and>
   (json_loads lib (clean_response (py_strip content)) = DecodeError \<longrightarrow>
      (\<exists>x. fst (analyze_question lib (Response content)) = Some x)) \<and>
   (json_loads lib (clean_response (py_strip content)) = Parsed (JDict d) \<and>
    dict_field d ''difficulty_rating'' \<noteq> JNull \<and>
    py_float lib (dict_field d ''difficulty_rating'') = Inr x \<and>
    normalize_time lib (dict_field d ''estimated_time'') = Inr n \<and>
    normalize_level (dict_field d ''student_level'') = Inr l \<longrightarrow>
      analyze_question lib (Response content) =
        (Some (clamp_difficulty x),
         format_report lib
           \<lparr>difficulty = clamp_difficulty x, estimated_time = n, student_level = l,
            suggestions = normalize_suggestions lib (dict_field d ''improvement_suggestions'')\<rparr>)) \<and>
   (json_loads lib (clean_response (py_strip content)) = Parsed v \<and>
    direct_fields lib v = Inr (Some f) \<longrightarrow>
      analyze_question lib (Response content) = (Some (difficulty f), format_report lib f)) \<and>
   (json_loads lib (clean_response (py_strip content)) = Parsed (JDict d) \<and>
    (map_of d ''difficulty_rating'' = None \<or> map_of d ''difficulty_rating'' = Some JNull) \<longrightarrow>
      analyze_question lib (Response content) =
        (None, ''Error: No difficulty rating provided in analysis''))"
proof (intro conjI impI)
  show "analyze_question lib NoClient =
     (None, ''Error: Groq client not initialized. Please check your API key configuration.'')"
    by (simp add: analyze_question_def)
  show "analyze_question lib (CallFailed msg) = (None, ''Error calling Groq API: '' @ msg)"
    by (simp add: analyze_question_def)
next
  assume "json_loads lib (clean_response (py_strip content)) = DecodeError"
  then show "\<exists>x. fst (analyze_question lib (Response content)) = Some x"
    by (simp add: analyze_question_fallback split: option.splits)
next
  assume a: "json_loads lib (clean_response (py_strip content)) = Parsed (JDict d) \<and>
    dict_field d ''difficulty_rating'' \<noteq> JNull \<and>
    py_float lib (dict_field d ''difficulty_rating'') = Inr x \<and>
    normalize_time lib (dict_field d ''estimated_time'') = Inr n \<and>
    normalize_level (dict_field d ''student_level'') = Inr l"
  then obtain dr where dr: "map_of d ''difficulty_rating'' = Some dr" "dr \<noteq> JNull"
    "py_float lib dr = Inr x"
    by (cases "map_of d ''difficulty_rating''") (simp_all add: dict_field_def)
  from a have tl: "normalize_time lib (case map_of d ''estimated_time'' of None \<Rightarrow> JNull | Some v \<Rightarrow> v) = Inr n"
    "normalize_level (case map_of d ''student_level'' of None \<Rightarrow> JNull | Some v \<Rightarrow> v) = Inr l"
    by (simp_all add: dict_field_def)
  have "direct_fields lib (JDict d) =
      Inr (Some \<lparr>difficulty = clamp_difficulty x, estimated_time = n, student_level = l,
             suggestions = normalize_suggestions lib (dict_field d ''improvement_suggestions'')\<rparr>)"
    using dr tl by (simp add: direct_fields_dict dict_field_def)
  with a show "analyze_question lib (Response content) =
        (Some (clamp_difficulty x),
         format_report lib
           \<lparr>difficulty = clamp_difficulty x, estimated_time = n, student_level = l,
            suggestions = normalize_suggestions lib (dict_field d ''improvement_suggestions'')\<rparr>)"
    by (simp add: analyze_question_direct)
next
  assume "json_loads lib (clean_response (py_strip content)) = Parsed v \<and>
    direct_fields lib v = Inr (Some f)"
  then show "analyze_question lib (Response content) = (Some (difficulty f), format_report lib f)"
    by (simp add: analyze_question_direct)
next
  assume "json_loads lib (clean_response (py_strip content)) = Parsed (JDict d) \<and>
    (map_of d ''difficulty_rating'' = None \<or> map_of d ''difficulty_rating'' = Some JNull)"
  then show "analyze_question lib (Response content) =
        (None, ''Error: No difficulty rating provided in analysis'')"
    by (auto simp: analyze_question_direct direct_fields_dict)
qed

text \<open>
  The three cases at work: a response that is no JSON, the object
  \<^verbatim>\<open>{"difficulty_rating": 9, "estimated_time": 0}\<close>, whose rating and time are clamped to 5.0
  and 1, and the object \<^verbatim>\<open>{"difficulty_rating": null}\<close>.
\<close>

theorem C2_witness:
  "json_loads (table_lib [] [] [] []) (clean_response (py_strip ''It is a hard question.'')) = DecodeError \<and>
   fst (analyze_question (table_lib [] [] [] []) (Response ''It is a hard question.'')) \<noteq> None \<and>
   json_loads
     (table_lib
        [(''{\"difficulty_rating\": 9, \"estimated_time\": 0}'',
          JDict [(''difficulty_rating'', JInt 9), (''estimated_time'', JInt 0)])]
        [] [] [(Fin 5, ''5.0'')])
     (clean_response (py_strip ''{\"difficulty_rating\": 9, \"estimated_time\": 0}''))
   = Parsed (JDict [(''difficulty_rating'', JInt 9), (''estimated_time'', JInt 0)]) \<and>
   analyze_question
     (table_lib
        [(''{\"difficulty_rating\": 9, \"estimated_time\": 0}'',
          JDict [(''difficulty_rating'', JInt 9), (''estimated_time'', JInt 0)])]
        [] [] [(Fin 5, ''5.0'')])
     (Response ''{\"difficulty_rating\": 9, \"estimated_time\": 0}'')
   = (Some (Fin 5),
      ''## Question Analysis\<newline>\<newline>**Difficulty Rating:** 5.0/5.0\<newline>\<newline>**Estimated Time:** 1 minutes\<newline>\<newline>**Appropriate Student Level:** Intermediate\<newline>\<newline>### Improvement Suggestions:\<newline>No specific improvement suggestions provided.\<newline>'') \<and>
   json_loads (table_lib [(''{\"difficulty_rating\": null}'', JDict [(''difficulty_rating'', JNull)])] [] [] [])
     (clean_response (py_strip ''{\"difficulty_rating\": null}'')) = Parsed (JDict [(''difficulty_rating'', JNull)]) \<and>
   analyze_question
     (table_lib [(''{\"difficulty_rating\": null}'', JDict [(''difficulty_rating'', JNull)])] [] [] [])
     (Response ''{\"difficulty_rating\": null}'')
   = (None, ''Error: No difficulty rating provided in analysis'')"
proof -
  let ?L1 = "table_lib [] [] [] []"
  let ?L2 = "table_lib [(''{\"difficulty_rating\": null}'', JDict [(''difficulty_rating'', JNull)])] [] [] []"
  let ?text = "''{\"difficulty_rating\": 9, \"estimated_time\": 0}''"
  let ?d = "[(''difficulty_rating'', JInt 9), (''estimated_time'', JInt 0)]"
  let ?L3 = "table_lib [(?text, JDict ?d)] [] [] [(Fin 5, ''5.0'')]"
  let ?f = "\<lparr>difficulty = Fin 5, estimated_time = 1, student_level = ''Intermediate'',
             suggestions = ''No specific improvement suggestions provided.''\<rparr>"
  have h1: "json_loads ?L1 (clean_response (py_strip ''It is a hard question.'')) = DecodeError"
    by code_simp
  have h2: "json_loads ?L2 (clean_response (py_strip ''{\"difficulty_rating\": null}''))
              = Parsed (JDict [(''difficulty_rating'', JNull)])"
    by code_simp
  have h3: "map_of [(''difficulty_rating'', JNull)] ''difficulty_rating'' = Some JNull"
    by simp
  have g1: "json_loads ?L3 (clean_response (py_strip ?text)) = Parsed (JDict ?d)"
    by code_simp
  have g2: "dict_field ?d ''difficulty_rating'' \<noteq> JNull"
    by (simp add: dict_field_def)
  have big: "\<not> (2 ^ 1024 - 2 ^ 970 \<le> (9::int))" by simp
  have g3: "py_float ?L3 (dict_field ?d ''difficulty_rating'') = Inr (Fin 9)"
    using big by (simp add: dict_field_def)
  have g4: "normalize_time ?L3 (dict_field ?d ''estimated_time'') = Inr 1"
    by (simp add: dict_field_def normalize_time_def clamp_time_def)
  have g5: "normalize_level (dict_field ?d ''student_level'') = Inr ''Intermediate''"
    by (simp add: dict_field_def)
  have g6: "direct_fields ?L3 (JDict ?d) = Inr (Some ?f)"
    using big
    by (simp add: direct_fields_dict normalize_time_def clamp_time_def clamp_difficulty_def
          py_min_def py_max_def normalize_suggestions_def placeholder_def)
  have r: "format_report ?L3 ?f
        = ''## Question Analysis\<newline>\<newline>**Difficulty Rating:** 5.0/5.0\<newline>\<newline>**Estimated Time:** 1 minutes\<newline>\<newline>**Appropriate Student Level:** Intermediate\<newline>\<newline>### Improvement Suggestions:\<newline>No specific improvement suggestions provided.\<newline>''"
    by code_simp
  have cl: "clamp_difficulty (Fin 9) = Fin 5"
    by (simp add: clamp_difficulty_def py_min_def py_max_def)
  have sg: "normalize_suggestions ?L3 (dict_field ?d ''improvement_suggestions'')
              = ''No specific improvement suggestions provided.''"
    by (simp add: dict_field_def normalize_suggestions_def placeholder_def)
  from C2_null_difficulty_cases [where lib = ?L1 and content = "''It is a hard question.''"] h1
  have c1: "fst (analyze_question ?L1 (Response ''It is a hard question.'')) \<noteq> None"
    by auto
  from C2_null_difficulty_cases [where lib = ?L2 and content = "''{\"difficulty_rating\": null}''"
      and d = "[(''difficulty_rating'', JNull)]"] h2 h3
  have c2: "analyze_question ?L2 (Response ''{\"difficulty_rating\": null}'')
              = (None, ''Error: No difficulty rating provided in analysis'')"
    by blast
  note inst = C2_null_difficulty_cases [where lib = ?L3 and content = ?text and d = ?d
      and x = "Fin 9" and n = 1 and l = "''Intermediate''" and v = "JDict ?d" and f = ?f]
  from inst g1 g2 g3 g4 g5
  have c3: "analyze_question ?L3 (Response ?text) =
        (Some (clamp_difficulty (Fin 9)),
         format_report ?L3
           \<lparr>difficulty = clamp_difficulty (Fin 9), estimated_time = 1, student_level = ''Intermediate'',
            suggestions = normalize_suggestions ?L3 (dict_field ?d ''improvement_suggestions'')\<rparr>)"
    by blast
  from inst g1 g6
  have c4: "analyze_question ?L3 (Response ?text) = (Some (difficulty ?f), format_report ?L3 ?f)"
    by blast
  from c3 have c5: "analyze_question ?L3 (Response ?text)
     = (Some (Fin 5),
      ''## Question Analysis\<newline>\<newline>**Difficulty Rating:** 5.0/5.0\<newline>\<newline>**Estimated Time:** 1 minutes\<newline>\<newline>**Appropriate Student Level:** Intermediate\<newline>\<newline>### Improvement Suggestions:\<newline>No specific improvement suggestions provided.\<newline>'')"
    unfolding cl sg r .
  from h1 h2 c1 c2 g1 c5 show ?thesis by blast
qed

text \<open>
  The response \<^verbatim>\<open>{}\<close> comes from a gateway that worked, and the difficulty returned is
  null.
\<close>

theorem C2_counterexample:
  "analyze_question (table_lib [(''{}'', JDict [])] [] [] []) (Response ''{}'')
   = (None, ''Error: No difficulty rating provided in analysis'')"
  by code_simp

subsection \<open>C3\<close>

text \<open>
  C3.  Stated property: every student level of the Evaluator and of a Generator element is
  one of Beginner, Intermediate, Advanced, found by lower-casing the raw value and looking
  for \<^verbatim>\<open>beginner\<close>, then \<^verbatim>\<open>advanced\<close>.  The Generator only fills in a missing level (lines 378
  to 380) and keeps any level that is present.  What holds: on the direct path of the
  Evaluator the level of the report is one of the three labels, Beginner when the
  lower-cased raw text contains \<^verbatim>\<open>beginner\<close>, else Advanced when it contains \<^verbatim>\<open>advanced\<close>,
  else (also when absent or null) Intermediate; an element of the Generator's list has the
  level of the element it comes from, or Intermediate when that element has none.
\<close>

theorem C3_student_level_labels:
  "(json_loads lib (clean_response (py_strip content)) = Parsed (JDict d) \<and>
    direct_fields lib (JDict d) = Inr (Some f) \<longrightarrow>
      analyze_question lib (Response content) = (Some (difficulty f), format_report lib f) \<and>
      student_level f \<in> {''Beginner'', ''Intermediate'', ''Advanced''} \<and>
      student_level f =
        (case map_of d ''student_level'' of
           Some (JStr raw) \<Rightarrow>
             if contains ''beginner'' (py_lower raw) then ''Beginner''
             else if contains ''advanced'' (py_lower raw) then ''Advanced''
             else ''Intermediate''
         | _ \<Rightarrow> ''Intermediate'')) \<and>
   (q' \<in> set (generate_questions lib (Response reply)) \<longrightarrow>
      (\<exists>s qs e e'. find_array reply = Some s \<and> json_loads lib s = Parsed (JList qs) \<and>
         JDict e \<in> set qs \<and> validate_question lib (JDict e) = Inr (Some q') \<and> q' = JDict e' \<and>
         map_of e' ''student_level'' =
           Some (case map_of e ''student_level'' of
                   None \<Rightarrow> JStr ''Intermediate''
                 | Some v \<Rightarrow> v)))"
proof (intro conjI impI)
  assume a: "json_loads lib (clean_response (py_strip content)) = Parsed (JDict d) \<and>
    direct_fields lib (JDict d) = Inr (Some f)"
  then show "analyze_question lib (Response content) = (Some (difficulty f), format_report lib f)"
    by (simp add: analyze_question_direct)
  from a have df: "direct_fields lib (JDict d) = Inr (Some f)" by simp
  from direct_fields_SomeD [OF this] obtain l where l: "normalize_level (case map_of d ''student_level'' of None \<Rightarrow> JNull | Some v \<Rightarrow> v) = Inr l"
    and fl: "student_level f = l"
    by auto
  from l fl show "student_level f \<in> {''Beginner'', ''Intermediate'', ''Advanced''}"
    using normalize_level_labels by blast
  from l fl show "student_level f =
        (case map_of d ''student_level'' of
           Some (JStr raw) \<Rightarrow>
             if contains ''beginner'' (py_lower raw) then ''Beginner''
             else if contains ''advanced'' (py_lower raw) then ''Advanced''
             else ''Intermediate''
         | _ \<Rightarrow> ''Intermediate'')"
    by (auto split: option.splits json.splits)
next
  assume "q' \<in> set (generate_questions lib (Response reply))"
  then obtain s qs e where 1: "find_array reply = Some s" "json_loads lib s = Parsed (JList qs)"
      "JDict e \<in> set qs" "validate_question lib (JDict e) = Inr (Some q')"
    using generate_questions_elements by blast
  then obtain x t where "q' = cleaned e x t" using validate_question_cleaned by blast
  then obtain e' where "q' = JDict e'" "map_of e' ''student_level'' =
           Some (case map_of e ''student_level'' of None \<Rightarrow> JStr ''Intermediate'' | Some v \<Rightarrow> v)"
    using cleaned_student_level by (metis cleaned_def)
  with 1 show "\<exists>s qs e e'. find_array reply = Some s \<and> json_loads lib s = Parsed (JList qs) \<and>
         JDict e \<in> set qs \<and> validate_question lib (JDict e) = Inr (Some q') \<and> q' = JDict e' \<and>
         map_of e' ''student_level'' =
           Some (case map_of e ''student_level'' of
                   None \<Rightarrow> JStr ''Intermediate''
                 | Some v \<Rightarrow> v)"
    by blast
qed

text \<open>
  The raw level \<^verbatim>\<open>BEGINNER-ish\<close> on the direct path, and a generated question without a
  level.
\<close>

theorem C3_witness:
  "json_loads
     (table_lib
        [(''{\"difficulty_rating\": 2, \"student_level\": \"BEGINNER-ish\"}'',
          JDict [(''difficulty_rating'', JInt 2), (''student_level'', JStr ''BEGINNER-ish'')])]
        [] [] [])
     (clean_response (py_strip ''{\"difficulty_rating\": 2, \"student_level\": \"BEGINNER-ish\"}''))
   = Parsed (JDict [(''difficulty_rating'', JInt 2), (''student_level'', JStr ''BEGINNER-ish'')]) \<and>
   direct_fields
     (table_lib
        [(''{\"difficulty_rating\": 2, \"student_level\": \"BEGINNER-ish\"}'',
          JDict [(''difficulty_rating'', JInt 2), (''student_level'', JStr ''BEGINNER-ish'')])]
        [] [] [])
     (JDict [(''difficulty_rating'', JInt 2), (''student_level'', JStr ''BEGINNER-ish'')])
   = Inr (Some \<lparr>difficulty = Fin 2, estimated_time = 5, student_level = ''Beginner'',
                 suggestions = ''No specific improvement suggestions provided.''\<rparr>) \<and>
   generate_questions
     (table_lib
        [(''[{\"question_content\": \"Q\", \"question_type\": \"Essay\", \"difficulty\": 2, \"correct_answer\": \"A\"}]'',
          JList [JDict [(''question_content'', JStr ''Q''), (''question_type'', JStr ''Essay''),
                        (''difficulty'', JInt 2), (''correct_answer'', JStr ''A'')]])]
        [] [] [])
     (Response ''[{\"question_content\": \"Q\", \"question_type\": \"Essay\", \"difficulty\": 2, \"correct_answer\": \"A\"}]'')
   = [JDict [(''question_content'', JStr ''Q''), (''question_type'', JStr ''Essay''),
             (''difficulty'', JFloat (Fin 2)), (''correct_answer'', JStr ''A''),
             (''estimated_time'', JInt 5), (''student_level'', JStr ''Intermediate'')]]"
proof -
  let ?d = "[(''difficulty_rating'', JInt 2), (''student_level'', JStr ''BEGINNER-ish'')]"
  let ?text = "''{\"difficulty_rating\": 2, \"student_level\": \"BEGINNER-ish\"}''"
  let ?L = "table_lib [(?text, JDict ?d)] [] [] []"
  let ?f = "\<lparr>difficulty = Fin 2, estimated_time = 5, student_level = ''Beginner'',
                 suggestions = ''No specific improvement suggestions provided.''\<rparr>"
  let ?reply = "''[{\"question_content\": \"Q\", \"question_type\": \"Essay\", \"difficulty\": 2, \"correct_answer\": \"A\"}]''"
  let ?e = "[(''question_content'', JStr ''Q''), (''question_type'', JStr ''Essay''),
                        (''difficulty'', JInt 2), (''correct_answer'', JStr ''A'')]"
  let ?G = "table_lib [(?reply, JList [JDict ?e])] [] [] []"
  let ?q' = "JDict [(''question_content'', JStr ''Q''), (''question_type'', JStr ''Essay''),
             (''difficulty'', JFloat (Fin 2)), (''correct_answer'', JStr ''A''),
             (''estimated_time'', JInt 5), (''student_level'', JStr ''Intermediate'')]"
  have lvl: "normalize_level (JStr ''BEGINNER-ish'') = Inr ''Beginner''" by code_simp
  have big: "\<not> (2 ^ 1024 - 2 ^ 970 \<le> (2::int))" by simp
  have h0: "json_loads ?L (clean_response (py_strip ?text)) = Parsed (JDict ?d)"
    by code_simp
  have h1: "direct_fields ?L (JDict ?d) = Inr (Some ?f)"
    using lvl big
    by (simp add: direct_fields_dict normalize_time_def clamp_time_def clamp_difficulty_def
          py_min_def py_max_def normalize_suggestions_def placeholder_def del: normalize_level.simps)
  have out: "generate_questions ?G (Response ?reply) = [?q']" by code_simp
  then have mem: "?q' \<in> set (generate_questions ?G (Response ?reply))" by simp
  note inst = C3_student_level_labels [where lib = ?L and content = ?text and d = ?d and f = ?f]
  note inst2 = C3_student_level_labels [where lib = ?G and q' = ?q' and reply = ?reply]
  from inst h0 h1 have a: "student_level ?f \<in> {''Beginner'', ''Intermediate'', ''Advanced''}" by blast
  from inst2 mem have b: "\<exists>s qs e e'. find_array ?reply = Some s \<and> json_loads ?G s = Parsed (JList qs) \<and>
         JDict e \<in> set qs \<and> validate_question ?G (JDict e) = Inr (Some ?q') \<and> ?q' = JDict e'" by blast
  from a b h0 h1 out show ?thesis by blast
qed

text \<open>
  A generated question whose level is \<^verbatim>\<open>expert\<close> is returned with that level, which is none
  of the three labels.
\<close>

theorem C3_counterexample:
  "generate_questions
     (table_lib
        [(''[{\"question_content\": \"Q\", \"question_type\": \"Essay\", \"difficulty\": 2, \"correct_answer\": \"A\", \"student_level\": \"expert\"}]'',
          JList [JDict [(''question_content'', JStr ''Q''), (''question_type'', JStr ''Essay''),
                        (''difficulty'', JInt 2), (''correct_answer'', JStr ''A''),
                        (''student_level'', JStr ''expert'')]])]
        [] [] [])
     (Response ''[{\"question_content\": \"Q\", \"question_type\": \"Essay\", \"difficulty\": 2, \"correct_answer\": \"A\", \"student_level\": \"expert\"}]'')
   = [JDict [(''question_content'', JStr ''Q''), (''question_type'', JStr ''Essay''),
             (''difficulty'', JFloat (Fin 2)), (''correct_answer'', JStr ''A''),
             (''student_level'', JStr ''expert''), (''estimated_time'', JInt 5)]] \<and>
   ''expert'' \<notin> {''Beginner'', ''Intermediate'', ''Advanced''}"
  by code_simp

subsection \<open>C4\<close>

text \<open>
  C4.  Stated property: every estimated time the Evaluator returns is an integer clamped to
  1..60, 5 when the field is absent or null; the Generator's is an integer, 5 when absent,
  not clamped.  The direct path clamps (\<open>direct_fields_ranges\<close>) and the Generator does
  what is stated (\<open>generate_questions_estimated_time\<close>); the fallback of line 225
  converts and does not clamp.  On the response below the direct parse fails, the brace
  span parses to an object with estimated time 999, and the report says 999 minutes.
\<close>

theorem C4_fallback_reports_unclamped_time:
  "analyze_question
     (table_lib
        [(''{\"difficulty_rating\": 3, \"estimated_time\": 999}'',
          JDict [(''difficulty_rating'', JInt 3), (''estimated_time'', JInt 999)])]
        [] [] [(Fin 3, ''3.0'')])
     (Response ''Result: {\"difficulty_rating\": 3, \"estimated_time\": 999}'')
   = (Some (Fin 3),
      ''## Question Analysis\<newline>\<newline>**Difficulty Rating:** 3.0/5.0\<newline>\<newline>**Estimated Time:** 999 minutes\<newline>\<newline>**Appropriate Student Level:** Intermediate\<newline>\<newline>### Improvement Suggestions:\<newline>No specific improvement suggestions provided.\<newline>'')"
  by code_simp

subsection \<open>C5\<close>

text \<open>
  C5.  For the object of the specification's example between Markdown fences, with any
  white space around the fences and the object, the Evaluator returns difficulty 5.0 and
  the report made of difficulty 5.0, estimated time 60, level Intermediate and the
  placeholder for the suggestions.  The only assumption is what \<^verbatim>\<open>json.loads\<close> returns on
  the text of the object.
\<close>

theorem C5_fenced_example:
  assumes parsed: "json_loads lib example_object =
      Parsed (JDict [(''difficulty_rating'', JInt 7), (''estimated_time'', JInt 999),
                   (''student_level'', JStr ''novice''), (''improvement_suggestions'', JStr '''')])"
    and w: "\<forall>c\<in>set w1. is_space c" "\<forall>c\<in>set w2. is_space c"
           "\<forall>c\<in>set w3. is_space c" "\<forall>c\<in>set w4. is_space c"
  shows "analyze_question lib (Response (w1 @ ''```json'' @ w2 @ example_object @ w3 @ ''```'' @ w4)) =
           (Some (Fin 5),
            format_report lib \<lparr>difficulty = Fin 5, estimated_time = 60,
               student_level = ''Intermediate'',
               suggestions = ''No specific improvement suggestions provided.''\<rparr>)"
proof -
  have c: "clean_response (py_strip (w1 @ ''```json'' @ w2 @ example_object @ w3 @ ''```'' @ w4)) = example_object"
    using w example_object_shape by (rule clean_fenced)
  have lvl: "normalize_level (JStr ''novice'') = Inr ''Intermediate''"
    by code_simp
  have big: "\<not> (2 ^ 1024 - 2 ^ 970 \<le> (7::int))" by simp
  have "direct_fields lib (JDict [(''difficulty_rating'', JInt 7), (''estimated_time'', JInt 999),
                   (''student_level'', JStr ''novice''), (''improvement_suggestions'', JStr '''')])
        = Inr (Some \<lparr>difficulty = Fin 5, estimated_time = 60, student_level = ''Intermediate'',
                suggestions = ''No specific improvement suggestions provided.''\<rparr>)"
    using lvl big
    by (simp add: direct_fields_dict normalize_time_def clamp_time_def clamp_difficulty_def
          py_min_def py_max_def normalize_suggestions_def placeholder_def del: normalize_level.simps)
  with parsed c show ?thesis by (simp add: analyze_question_direct)
qed

text \<open>
  The specification's example, with one space after the opening fence and one before the
  closing fence.
\<close>

theorem C5_witness:
  "json_loads
     (table_lib
        [(example_object,
          JDict [(''difficulty_rating'', JInt 7), (''estimated_time'', JInt 999),
                 (''student_level'', JStr ''novice''), (''improvement_suggestions'', JStr '''')])]
        [] [] [(Fin 5, ''5.0'')])
     example_object
   = Parsed (JDict [(''difficulty_rating'', JInt 7), (''estimated_time'', JInt 999),
                  (''student_level'', JStr ''novice''), (''improvement_suggestions'', JStr '''')]) \<and>
   analyze_question
     (table_lib
        [(example_object,
          JDict [(''difficulty_rating'', JInt 7), (''estimated_time'', JInt 999),
                 (''student_level'', JStr ''novice''), (''improvement_suggestions'', JStr '''')])]
        [] [] [(Fin 5, ''5.0'')])
     (Response (''```json '' @ example_object @ '' ```''))
   = (Some (Fin 5),
      ''## Question Analysis\<newline>\<newline>**Difficulty Rating:** 5.0/5.0\<newline>\<newline>**Estimated Time:** 60 minutes\<newline>\<newline>**Appropriate Student Level:** Intermediate\<newline>\<newline>### Improvement Suggestions:\<newline>No specific improvement suggestions provided.\<newline>'')"
proof -
  let ?v = "JDict [(''difficulty_rating'', JInt 7), (''estimated_time'', JInt 999),
                 (''student_level'', JStr ''novice''), (''improvement_suggestions'', JStr '''')]"
  let ?L = "table_lib [(example_object, ?v)] [] [] [(Fin 5, ''5.0'')]"
  have h: "json_loads ?L example_object = Parsed ?v" by (simp add: table_lib_def)
  have w0: "\<forall>c\<in>set ''''. is_space c" by simp
  have w1: "\<forall>c\<in>set '' ''. is_space c" by (simp add: is_space_def)
  have r: "format_report ?L \<lparr>difficulty = Fin 5, estimated_time = 60,
               student_level = ''Intermediate'',
               suggestions = ''No specific improvement suggestions provided.''\<rparr>
        = ''## Question Analysis\<newline>\<newline>**Difficulty Rating:** 5.0/5.0\<newline>\<newline>**Estimated Time:** 60 minutes\<newline>\<newline>**Appropriate Student Level:** Intermediate\<newline>\<newline>### Improvement Suggestions:\<newline>No specific improvement suggestions provided.\<newline>''"
    by code_simp
  from C5_fenced_example [OF h w0 w1 w1 w0] r h show ?thesis by simp
qed

subsection \<open>C6\<close>

text \<open>
  C6.  When the direct path has normalised the fields \<open>f\<close>, the two searches of
  \<^verbatim>\<open>question_generator_page\<close> on the report the Evaluator returns give back the estimated
  time and the student level of \<open>f\<close>.  The difficulty is printed before both markers, so
  the statement assumes that the printed float holds no asterisk (a float prints with
  digits, a point, a sign, an exponent, or as \<^verbatim>\<open>inf\<close> or \<^verbatim>\<open>nan\<close>).
\<close>

theorem C6_report_round_trip:
  assumes parsed: "json_loads lib (clean_response (py_strip content)) = Parsed v"
    and fields: "direct_fields lib v = Inr (Some f)"
    and printed: "CHR ''*'' \<notin> set (str_of_float lib (difficulty f))"
  shows "extract_time (snd (analyze_question lib (Response content))) = estimated_time f \<and>
         extract_level (snd (analyze_question lib (Response content))) = student_level f"
proof -
  from parsed fields have report: "snd (analyze_question lib (Response content)) = format_report lib f"
    by (simp add: analyze_question_direct)
  from direct_fields_ranges [OF fields] have t: "0 \<le> estimated_time f"
    and l: "student_level f \<in> {''Beginner'', ''Intermediate'', ''Advanced''}" by auto
  from t have ds: "\<forall>c\<in>set (str_int (estimated_time f)). is_digit c" "str_int (estimated_time f) \<noteq> []"
    using str_int_digits by auto
  from l have w: "\<forall>c\<in>set (student_level f). is_word c" "student_level f \<noteq> []"
    using labels_are_words by auto
  have "search_time (format_report lib f) = Some (str_int (estimated_time f))"
    unfolding format_report_def
    using search_time_report [OF printed ds] by simp
  then have 1: "extract_time (format_report lib f) = estimated_time f"
    using t by (simp add: extract_time_def int_of_digits_str_int)
  have "search_level (format_report lib f) = Some (student_level f)"
    unfolding format_report_def
    using search_level_report [OF printed ds(1) w] by simp
  then have 2: "extract_level (format_report lib f) = student_level f"
    by (simp add: extract_level_def)
  from report 1 2 show ?thesis by simp
qed

text \<open>
  The round trip on a response with estimated time 12 and level \<^verbatim>\<open>Advanced learners\<close>.
\<close>

theorem C6_witness:
  "json_loads
     (table_lib
        [(''{\"difficulty_rating\": 4.5, \"estimated_time\": 12, \"student_level\": \"Advanced learners\"}'',
          JDict [(''difficulty_rating'', JFloat (Fin 4.5)), (''estimated_time'', JInt 12),
                 (''student_level'', JStr ''Advanced learners'')])]
        [] [] [(Fin 4.5, ''4.5'')])
     (clean_response (py_strip ''{\"difficulty_rating\": 4.5, \"estimated_time\": 12, \"student_level\": \"Advanced learners\"}''))
   = Parsed (JDict [(''difficulty_rating'', JFloat (Fin 4.5)), (''estimated_time'', JInt 12),
                  (''student_level'', JStr ''Advanced learners'')]) \<and>
   direct_fields
     (table_lib
        [(''{\"difficulty_rating\": 4.5, \"estimated_time\": 12, \"student_level\": \"Advanced learners\"}'',
          JDict [(''difficulty_rating'', JFloat (Fin 4.5)), (''estimated_time'', JInt 12),
                 (''student_level'', JStr ''Advanced learners'')])]
        [] [] [(Fin 4.5, ''4.5'')])
     (JDict [(''difficulty_rating'', JFloat (Fin 4.5)), (''estimated_time'', JInt 12),
             (''student_level'', JStr ''Advanced learners'')])
   = Inr (Some \<lparr>difficulty = Fin 4.5, estimated_time = 12, student_level = ''Advanced'',
                 suggestions = ''No specific improvement suggestions provided.''\<rparr>) \<and>
   extract_time (snd (analyze_question
     (table_lib
        [(''{\"difficulty_rating\": 4.5, \"estimated_time\": 12, \"student_level\": \"Advanced learners\"}'',
          JDict [(''difficulty_rating'', JFloat (Fin 4.5)), (''estimated_time'', JInt 12),
                 (''student_level'', JStr ''Advanced learners'')])]
        [] [] [(Fin 4.5, ''4.5'')])
     (Response ''{\"difficulty_rating\": 4.5, \"estimated_time\": 12, \"student_level\": \"Advanced learners\"}''))) = 12 \<and>
   extract_level (snd (analyze_question
     (table_lib
        [(''{\"difficulty_rating\": 4.5, \"estimated_time\": 12, \"student_level\": \"Advanced learners\"}'',
          JDict [(''difficulty_rating'', JFloat (Fin 4.5)), (''estimated_time'', JInt 12),
                 (''student_level'', JStr ''Advanced learners'')])]
        [] [] [(Fin 4.5, ''4.5'')])
     (Response ''{\"difficulty_rating\": 4.5, \"estimated_time\": 12, \"student_level\": \"Advanced learners\"}''))) = ''Advanced''"
proof -
  let ?text = "''{\"difficulty_rating\": 4.5, \"estimated_time\": 12, \"student_level\": \"Advanced learners\"}''"
  let ?v = "JDict [(''difficulty_rating'', JFloat (Fin 4.5)), (''estimated_time'', JInt 12),
                 (''student_level'', JStr ''Advanced learners'')]"
  let ?L = "table_lib [(?text, ?v)] [] [] [(Fin 4.5, ''4.5'')]"
  let ?f = "\<lparr>difficulty = Fin 4.5, estimated_time = 12, student_level = ''Advanced'',
                 suggestions = ''No specific improvement suggestions provided.''\<rparr>"
  have c: "clean_response (py_strip ?text) = ?text" by code_simp
  have h1: "json_loads ?L (clean_response (py_strip ?text)) = Parsed ?v"
    unfolding c by (simp add: table_lib_def)
  have lvl: "normalize_level (JStr ''Advanced learners'') = Inr ''Advanced''" by code_simp
  have h2: "direct_fields ?L ?v = Inr (Some ?f)"
    using lvl
    by (simp add: direct_fields_dict normalize_time_def clamp_time_def clamp_difficulty_def
          py_min_def py_max_def normalize_suggestions_def placeholder_def del: normalize_level.simps)
  have h3: "CHR ''*'' \<notin> set (str_of_float ?L (difficulty ?f))"
    by (simp add: table_lib_def)
  from C6_report_round_trip [OF h1 h2 h3] h1 h2 show ?thesis by simp
qed

subsection \<open>C7\<close>

text \<open>
  C7.  Stated property: in every parsed batch an element is discarded exactly when one of
  the four required fields is absent, and the others are returned in their order.  An
  element whose difficulty or estimated time raises in \<^verbatim>\<open>float\<close> or \<^verbatim>\<open>int\<close> makes the
  handler of line 392 return the empty list, so elements with all four fields are lost
  too.  What holds: when the batch is a list of dicts and every dict with the four fields
  has a difficulty and an estimated time that convert, the list returned is, in order and
  one for one, what the loop body makes of the dicts with the four fields; its length is
  their number.
\<close>

theorem C7_discard_iff_field_missing:
  assumes span: "find_array content = Some s"
    and parsed: "json_loads lib s = Parsed (JList qs)"
    and objects: "\<forall>q\<in>set qs. \<exists>d. q = JDict d"
    and coerce: "\<forall>q\<in>set qs. has_required q \<longrightarrow> coercible lib q"
  shows "list_all2 (\<lambda>q q'. validate_question lib q = Inr (Some q'))
           (filter has_required qs) (generate_questions lib (Response content)) \<and>
         length (generate_questions lib (Response content)) = length (filter has_required qs)"
proof -
  have each: "(has_required q \<longrightarrow> (\<exists>q'. validate_question lib q = Inr (Some q'))) \<and>
              (\<not> has_required q \<longrightarrow> validate_question lib q = Inr None)" if "q \<in> set qs" for q
  proof -
    from that objects obtain d where d: "q = JDict d" by blast
    show ?thesis
    proof (cases "has_required q")
      case True
      with that coerce d show ?thesis using validate_question_coercible by blast
    next
      case False
      with d show ?thesis by (simp add: validate_question_dict has_required_def)
    qed
  qed
  then have "\<forall>q\<in>set qs. \<exists>r. validate_question lib q = Inr r" by blast
  then have "validate_loop lib qs [] = Inr ([] @ List.map_filter (survivor lib) qs)"
    by (rule validate_loop_no_exception)
  with span parsed have out: "generate_questions lib (Response content) = List.map_filter (survivor lib) qs"
    by (simp add: generate_questions_list)
  have "\<forall>q\<in>set qs. (has_required q \<longrightarrow> (\<exists>q'. survivor lib q = Some q' \<and> validate_question lib q = Inr (Some q'))) \<and>
                     (\<not> has_required q \<longrightarrow> survivor lib q = None)"
  proof
    fix q assume q: "q \<in> set qs"
    show "(has_required q \<longrightarrow> (\<exists>q'. survivor lib q = Some q' \<and> validate_question lib q = Inr (Some q'))) \<and>
          (\<not> has_required q \<longrightarrow> survivor lib q = None)"
    proof (cases "has_required q")
      case True
      with each [OF q] obtain q' where "validate_question lib q = Inr (Some q')" by blast
      with True show ?thesis by (simp add: survivor_def)
    next
      case False
      with each [OF q] have "validate_question lib q = Inr None" by blast
      with False show ?thesis by (simp add: survivor_def)
    qed
  qed
  then have rel: "list_all2 (\<lambda>q q'. validate_question lib q = Inr (Some q'))
                    (filter has_required qs) (List.map_filter (survivor lib) qs)"
    by (rule filter_map_filter_all2)
  from rel out show ?thesis by (simp add: list_all2_lengthD)
qed

text \<open>
  A batch of three in which exactly the second element has no difficulty: two elements
  are returned, the first and the third.
\<close>

theorem C7_witness:
  "find_array (''Here you go: '' @ example_batch_span) = Some example_batch_span \<and>
   json_loads example_batch_lib example_batch_span = Parsed (JList example_batch) \<and>
   length example_batch = 3 \<and>
   generate_questions example_batch_lib (Response (''Here you go: '' @ example_batch_span)) =
     [JDict [(''question_content'', JStr ''Q1''), (''question_type'', JStr ''Essay''),
             (''difficulty'', JFloat (Fin 2)), (''correct_answer'', JStr ''A1''),
             (''estimated_time'', JInt 5), (''student_level'', JStr ''Intermediate'')],
      JDict [(''question_content'', JStr ''Q3''), (''question_type'', JStr ''Essay''),
             (''difficulty'', JFloat (Fin 5)), (''correct_answer'', JStr ''A3''),
             (''estimated_time'', JInt 90), (''student_level'', JStr ''Intermediate'')]] \<and>
   length (generate_questions example_batch_lib (Response (''Here you go: '' @ example_batch_span))) = 2"
proof -
  have h1: "find_array (''Here you go: '' @ example_batch_span) = Some example_batch_span"
    by code_simp
  have h2: "json_loads example_batch_lib example_batch_span = Parsed (JList example_batch)"
    by (simp add: example_batch_lib_def table_lib_def)
  have h3: "\<forall>q\<in>set example_batch. \<exists>d. q = JDict d"
    by (simp add: example_batch_def)
  have h4: "\<forall>q\<in>set example_batch. has_required q \<longrightarrow> coercible example_batch_lib q"
    by (simp add: example_batch_def coercible_def)
  have kept: "length (filter has_required example_batch) = 2"
    by code_simp
  have out: "generate_questions example_batch_lib (Response (''Here you go: '' @ example_batch_span)) =
     [JDict [(''question_content'', JStr ''Q1''), (''question_type'', JStr ''Essay''),
             (''difficulty'', JFloat (Fin 2)), (''correct_answer'', JStr ''A1''),
             (''estimated_time'', JInt 5), (''student_level'', JStr ''Intermediate'')],
      JDict [(''question_content'', JStr ''Q3''), (''question_type'', JStr ''Essay''),
             (''difficulty'', JFloat (Fin 5)), (''correct_answer'', JStr ''A3''),
             (''estimated_time'', JInt 90), (''student_level'', JStr ''Intermediate'')]]"
    by code_simp
  have len: "length example_batch = 3" by (simp add: example_batch_def)
  from C7_discard_iff_field_missing [OF h1 h2 h3 h4] kept
  have "length (generate_questions example_batch_lib (Response (''Here you go: '' @ example_batch_span))) = 2"
    by simp
  with h1 h2 len out show ?thesis by blast
qed

text \<open>
  The first element has the four fields; the estimated time of the second is the text
  \<^verbatim>\<open>soon\<close>; both are discarded.
\<close>

theorem C7_counterexample:
  "has_required (JDict [(''question_content'', JStr ''Q1''), (''question_type'', JStr ''Essay''),
                        (''difficulty'', JInt 2), (''correct_answer'', JStr ''A1'')]) \<and>
   generate_questions
     (table_lib
        [(''[{\"question_content\": \"Q1\", \"question_type\": \"Essay\", \"difficulty\": 2, \"correct_answer\": \"A1\"}, {\"question_content\": \"Q2\", \"question_type\": \"Essay\", \"difficulty\": 3, \"correct_answer\": \"A2\", \"estimated_time\": \"soon\"}]'',
          JList [JDict [(''question_content'', JStr ''Q1''), (''question_type'', JStr ''Essay''),
                        (''difficulty'', JInt 2), (''correct_answer'', JStr ''A1'')],
                 JDict [(''question_content'', JStr ''Q2''), (''question_type'', JStr ''Essay''),
                        (''difficulty'', JInt 3), (''correct_answer'', JStr ''A2''),
                        (''estimated_time'', JStr ''soon'')]])]
        [] [] [])
     (Response ''[{\"question_content\": \"Q1\", \"question_type\": \"Essay\", \"difficulty\": 2, \"correct_answer\": \"A1\"}, {\"question_content\": \"Q2\", \"question_type\": \"Essay\", \"difficulty\": 3, \"correct_answer\": \"A2\", \"estimated_time\": \"soon\"}]'')
   = []"
  by code_simp

subsection \<open>C8\<close>

text \<open>
  C8.  When the response has no bracketed span, or \<^verbatim>\<open>json.loads\<close> on the span raises
  (\<^verbatim>\<open>JSONDecodeError\<close> or anything else) or gives anything but a list, the Generator returns
  the empty list.
  The model of the Generator is a total function to lists: every exception is a value that
  the handlers turn into the empty list.
\<close>

theorem C8_no_array_gives_empty_list:
  assumes "find_array content = None \<or>
           (\<exists>s. find_array content = Some s \<and> (\<forall>qs. json_loads lib s \<noteq> Parsed (JList qs)))"
  shows "generate_questions lib (Response content) = []"
  using assms
proof
  assume "find_array content = None"
  then show ?thesis by (simp add: generate_questions_def)
next
  assume "\<exists>s. find_array content = Some s \<and> (\<forall>qs. json_loads lib s \<noteq> Parsed (JList qs))"
  then obtain s where s: "find_array content = Some s" and nl: "\<forall>qs. json_loads lib s \<noteq> Parsed (JList qs)"
    by blast
  show ?thesis
  proof (cases "json_loads lib s")
    case (Parsed v)
    with nl have "\<forall>qs. v \<noteq> JList qs" by simp
    with s Parsed show ?thesis by (rule generate_questions_not_list)
  next
    case DecodeError
    with s show ?thesis by (simp add: generate_questions_def)
  next
    case (Raised e)
    with s show ?thesis by (simp add: generate_questions_def)
  qed
qed

text \<open>
  The specification's example \<^verbatim>\<open>not a json array at all\<close>.
\<close>

theorem C8_witness:
  "find_array ''not a json array at all'' = None \<and>
   generate_questions (table_lib [] [] [] []) (Response ''not a json array at all'') = []"
proof -
  have h: "find_array ''not a json array at all'' = None" by code_simp
  from C8_no_array_gives_empty_list [of "''not a json array at all''" "table_lib [] [] [] []"] h
  show ?thesis by blast
qed

subsection \<open>C9\<close>

text \<open>
  C9.  Stated property: when the direct parse and the brace-span tier both fail, the
  Evaluator returns 3.0 and the text \<^verbatim>\<open>Analysis (raw): \<close> followed by the literal raw response
  of the gateway.  The text that follows is the response after lines 149 to 158: white
  space stripped at both ends and the fence markers removed.  Moreover the handler of
  line 215 takes \<^verbatim>\<open>JSONDecodeError\<close> only: a direct parse that fails with another exception
  goes to line 249 (\<open>analyze_question_raised\<close>) and is not covered.  What holds, with \<open>t\<close>
  that cleaned text: when the direct parse of \<open>t\<close> raises \<^verbatim>\<open>JSONDecodeError\<close> and the second
  tier fails (no brace span in \<open>t\<close>, or the parse of the span raises, or reading its fields
  raises), the result is 3.0 and \<^verbatim>\<open>Analysis (raw): \<close> followed by \<open>t\<close>.
\<close>

theorem C9_raw_text_sentinel:
  assumes t: "t = clean_response (py_strip content)"
    and direct: "json_loads lib t = DecodeError"
    and tier2: "find_object t = None \<or>
                (\<exists>m. find_object t = Some m \<and>
                     ((\<forall>v. json_loads lib m \<noteq> Parsed v) \<or>
                      (\<exists>v e. json_loads lib m = Parsed v \<and> fallback_fields lib v = Inl e)))"
  shows "analyze_question lib (Response content) = (Some (Fin 3), ''Analysis (raw): '' @ t)"
proof -
  from tier2 have "parse_fallback lib t = None"
    by (auto simp: parse_fallback_def split: loads_result.splits)
  with t direct show ?thesis by (simp add: analyze_question_fallback)
qed

text \<open>
  A response without braces, with a space at each end.
\<close>

theorem C9_witness:
  "json_loads (table_lib [] [] [] []) (clean_response (py_strip '' The question is fine. '')) = DecodeError \<and>
   find_object (clean_response (py_strip '' The question is fine. '')) = None \<and>
   analyze_question (table_lib [] [] [] []) (Response '' The question is fine. '')
     = (Some (Fin 3), ''Analysis (raw): The question is fine.'')"
proof -
  let ?L = "table_lib [] [] [] []"
  have t: "''The question is fine.'' = clean_response (py_strip '' The question is fine. '')"
    by code_simp
  have h1: "json_loads ?L ''The question is fine.'' = DecodeError"
    by code_simp
  have h2: "find_object ''The question is fine.'' = None"
    by code_simp
  from C9_raw_text_sentinel [OF t h1] h2
  have "analyze_question ?L (Response '' The question is fine. '')
          = (Some (Fin 3), ''Analysis (raw): '' @ ''The question is fine.'')"
    by blast
  with t h1 h2 show ?thesis by simp
qed

text \<open>
  A fenced response that is no JSON: both tiers fail, and the text after the prefix is
  \<^verbatim>\<open>oops\<close>, not the response as the gateway gave it.
\<close>

theorem C9_counterexample:
  "json_loads (table_lib [] [] [] []) (clean_response (py_strip ''```json\<newline>oops\<newline>```'')) = DecodeError \<and>
   find_object (clean_response (py_strip ''```json\<newline>oops\<newline>```'')) = None \<and>
   analyze_question (table_lib [] [] [] []) (Response ''```json\<newline>oops\<newline>```'')
     = (Some (Fin 3), ''Analysis (raw): oops'') \<and>
   ''Analysis (raw): oops'' \<noteq> ''Analysis (raw): '' @ ''```json\<newline>oops\<newline>```''"
  by code_simp

subsection \<open>C10\<close>

text \<open>
  C10.  When the response parses as a JSON list and some element that is a dict with the
  four required fields has a difficulty, or an estimated time, on which \<^verbatim>\<open>float\<close> or
  \<^verbatim>\<open>int\<close> raises, the Generator returns the empty list: every element of the batch is
  discarded.
\<close>

theorem C10_uncoercible_value_empties_batch:
  assumes span: "find_array content = Some s"
    and parsed: "json_loads lib s = Parsed (JList qs)"
    and elem: "q \<in> set qs"
    and req: "has_required q"
    and bad: "\<not> coercible lib q"
  shows "generate_questions lib (Response content) = []"
proof -
  from req obtain d where d: "q = JDict d" by (cases q) (simp_all add: has_required_def)
  with req bad obtain e where "validate_question lib q = Inl e"
    using validate_question_not_coercible by blast
  with elem obtain e' where "validate_loop lib qs [] = Inl e'"
    using validate_loop_raises by blast
  with span parsed show ?thesis by (simp add: generate_questions_list)
qed

text \<open>
  A batch of two whose second element has the difficulty \<^verbatim>\<open>hard\<close>: the first element, which
  is valid, is not returned either.
\<close>

theorem C10_witness:
  "find_array ''[{\"question_content\": \"Q1\", \"question_type\": \"Essay\", \"difficulty\": 2, \"correct_answer\": \"A1\"}, {\"question_content\": \"Q2\", \"question_type\": \"Essay\", \"difficulty\": \"hard\", \"correct_answer\": \"A2\"}]''
     = Some ''[{\"question_content\": \"Q1\", \"question_type\": \"Essay\", \"difficulty\": 2, \"correct_answer\": \"A1\"}, {\"question_content\": \"Q2\", \"question_type\": \"Essay\", \"difficulty\": \"hard\", \"correct_answer\": \"A2\"}]'' \<and>
   has_required (JDict [(''question_content'', JStr ''Q2''), (''question_type'', JStr ''Essay''),
                        (''difficulty'', JStr ''hard''), (''correct_answer'', JStr ''A2'')]) \<and>
   \<not> coercible (table_lib
        [(''[{\"question_content\": \"Q1\", \"question_type\": \"Essay\", \"difficulty\": 2, \"correct_answer\": \"A1\"}, {\"question_content\": \"Q2\", \"question_type\": \"Essay\", \"difficulty\": \"hard\", \"correct_answer\": \"A2\"}]'',
          JList [JDict [(''question_content'', JStr ''Q1''), (''question_type'', JStr ''Essay''),
                        (''difficulty'', JInt 2), (''correct_answer'', JStr ''A1'')],
                 JDict [(''question_content'', JStr ''Q2''), (''question_type'', JStr ''Essay''),
                        (''difficulty'', JStr ''hard''), (''correct_answer'', JStr ''A2'')]])]
        [] [] [])
      (JDict [(''question_content'', JStr ''Q2''), (''question_type'', JStr ''Essay''),
                        (''difficulty'', JStr ''hard''), (''correct_answer'', JStr ''A2'')]) \<and>
   generate_questions
     (table_lib
        [(''[{\"question_content\": \"Q1\", \"question_type\": \"Essay\", \"difficulty\": 2, \"correct_answer\": \"A1\"}, {\"question_content\": \"Q2\", \"question_type\": \"Essay\", \"difficulty\": \"hard\", \"correct_answer\": \"A2\"}]'',
          JList [JDict [(''question_content'', JStr ''Q1''), (''question_type'', JStr ''Essay''),
                        (''difficulty'', JInt 2), (''correct_answer'', JStr ''A1'')],
                 JDict [(''question_content'', JStr ''Q2''), (''question_type'', JStr ''Essay''),
                        (''difficulty'', JStr ''hard''), (''correct_answer'', JStr ''A2'')]])]
        [] [] [])
     (Response ''[{\"question_content\": \"Q1\", \"question_type\": \"Essay\", \"difficulty\": 2, \"correct_answer\": \"A1\"}, {\"question_content\": \"Q2\", \"question_type\": \"Essay\", \"difficulty\": \"hard\", \"correct_answer\": \"A2\"}]'')
   = []"
proof -
  let ?text = "''[{\"question_content\": \"Q1\", \"question_type\": \"Essay\", \"difficulty\": 2, \"correct_answer\": \"A1\"}, {\"question_content\": \"Q2\", \"question_type\": \"Essay\", \"difficulty\": \"hard\", \"correct_answer\": \"A2\"}]''"
  let ?q1 = "JDict [(''question_content'', JStr ''Q1''), (''question_type'', JStr ''Essay''),
                        (''difficulty'', JInt 2), (''correct_answer'', JStr ''A1'')]"
  let ?q2 = "JDict [(''question_content'', JStr ''Q2''), (''question_type'', JStr ''Essay''),
                        (''difficulty'', JStr ''hard''), (''correct_answer'', JStr ''A2'')]"
  let ?L = "table_lib [(?text, JList [?q1, ?q2])] [] [] []"
  have h1: "find_array ?text = Some ?text" by code_simp
  have h2: "json_loads ?L ?text = Parsed (JList [?q1, ?q2])" by (simp add: table_lib_def)
  have h3: "?q2 \<in> set [?q1, ?q2]" by simp
  have h4: "has_required ?q2" by code_simp
  have h5: "\<not> coercible ?L ?q2" by (simp add: coercible_def table_lib_def)
  from C10_uncoercible_value_empties_batch [OF h1 h2 h3 h4 h5]
  have "generate_questions ?L (Response ?text) = []" .
  with h1 h4 h5 show ?thesis by blast
qed

end
